theory Spec2Isabelle
  imports Main "HOL-Library.Sublist"
begin

section \<open>Python strings\<close>

text \<open>
  A Python string is modelled by its UTF-8 encoding, a \<open>char list\<close>. The operations
  the program applies to strings commute with the encoding: concatenation, comparison,
  \<open>lstrip(".")\<close>, \<open>startswith\<close>, \<open>rfind(".")\<close> and the splitting of a path at \<open>/\<close> see
  the same characters in the bytes as in the code points, since the bytes of \<open>.\<close> and \<open>/\<close>
  occur in an encoding only as these characters. \<open>str.lower\<close> and \<open>str.upper\<close> follow the
  Unicode tables: they are operations of the environment (\<open>str_lower\<close>, \<open>str_upper\<close>
  below), not defined here.
\<close>

text \<open>
  The ASCII part of the case tables, on which \<open>str.lower\<close> and \<open>str.upper\<close> agree with
  every table; a string is ASCII when no byte has its top bit set.
\<close>

definition upper_letters :: string where
  "upper_letters = ''ABCDEFGHIJKLMNOPQRSTUVWXYZ''"

definition lower_letters :: string where
  "lower_letters = ''abcdefghijklmnopqrstuvwxyz''"

definition ascii_lower_char :: "char \<Rightarrow> char" where
  "ascii_lower_char c =
     (case map_of (zip upper_letters lower_letters) c of Some d \<Rightarrow> d | None \<Rightarrow> c)"

definition ascii_upper_char :: "char \<Rightarrow> char" where
  "ascii_upper_char c =
     (case map_of (zip lower_letters upper_letters) c of Some d \<Rightarrow> d | None \<Rightarrow> c)"

definition ascii_lower :: "string \<Rightarrow> string" where
  "ascii_lower s = map ascii_lower_char s"

definition ascii_upper :: "string \<Rightarrow> string" where
  "ascii_upper s = map ascii_upper_char s"

definition is_ascii :: "string \<Rightarrow> bool" where
  "is_ascii s = list_all (\<lambda>c. \<not> digit7 c) s"

text \<open>\<open>s.lstrip(".")\<close>: drop every leading dot.\<close>

definition lstrip_dot :: "string \<Rightarrow> string" where
  "lstrip_dot s = dropWhile (\<lambda>c. c = CHR ''.'') s"

definition startswith :: "string \<Rightarrow> string \<Rightarrow> bool" where
  "startswith s p = (take (length p) s = p)"

text \<open>
  \<open>s[-n:]\<close>: the last \<open>n\<close> characters, the whole string when it is shorter. A character
  is one byte that is not a continuation byte, with the continuation bytes that follow it.
\<close>

definition is_continuation :: "char \<Rightarrow> bool" where
  "is_continuation c = (digit7 c \<and> \<not> digit6 c)"

fun take_last_chars :: "nat \<Rightarrow> string \<Rightarrow> string" where
  "take_last_chars 0 bs = []"
| "take_last_chars (Suc n) [] = []"
| "take_last_chars (Suc n) (b # bs) =
     b # (if is_continuation b then take_last_chars (Suc n) bs else take_last_chars n bs)"

definition last_chars :: "nat \<Rightarrow> string \<Rightarrow> string" where
  "last_chars n s = rev (take_last_chars n (rev s))"

text \<open>\<open>s.rfind(c)\<close>: the index of the last occurrence, \<open>None\<close> for Python's \<open>-1\<close>.\<close>

fun rfind :: "char \<Rightarrow> string \<Rightarrow> nat option" where
  "rfind c [] = None"
| "rfind c (x # xs) =
     (case rfind c xs of
        Some i \<Rightarrow> Some (Suc i)
      | None \<Rightarrow> if x = c then Some 0 else None)"

text \<open>\<open>s.split(sep)\<close> for a one-character separator.\<close>

fun split_on :: "char \<Rightarrow> string \<Rightarrow> string list" where
  "split_on sep [] = [[]]"
| "split_on sep (c # cs) =
     (if c = sep then [] # split_on sep cs
      else (case split_on sep cs of
              [] \<Rightarrow> [[c]]
            | w # ws \<Rightarrow> (c # w) # ws))"

fun join_with :: "string \<Rightarrow> string list \<Rightarrow> string" where
  "join_with sep [] = []"
| "join_with sep [x] = x"
| "join_with sep (x # y # ys) = x @ sep @ join_with sep (y # ys)"

section \<open>Exceptions and dictionaries\<close>

datatype py_exception =
    RuntimeError string
  | FileNotFoundError string
  | TimeoutExpired string
  | KeyError string
  | OtherException string

text \<open>\<open>str(e)\<close>.\<close>

fun str_exc :: "py_exception \<Rightarrow> string" where
  "str_exc (RuntimeError m) = m"
| "str_exc (FileNotFoundError m) = m"
| "str_exc (TimeoutExpired m) = m"
| "str_exc (KeyError m) = m"
| "str_exc (OtherException m) = m"

text \<open>A dict literal is an association list; no literal of the program repeats a key.\<close>

definition dict_contains :: "(string \<times> 'v) list \<Rightarrow> string \<Rightarrow> bool" where
  "dict_contains d k = (map_of d k \<noteq> None)"

definition dict_get :: "(string \<times> 'v) list \<Rightarrow> string \<Rightarrow> 'v \<Rightarrow> 'v" where
  "dict_get d k dflt = (case map_of d k of Some v \<Rightarrow> v | None \<Rightarrow> dflt)"

text \<open>\<open>d[k]\<close> raises \<open>KeyError\<close> on a missing key.\<close>

definition dict_index :: "(string \<times> 'v) list \<Rightarrow> string \<Rightarrow> py_exception + 'v" where
  "dict_index d k = (case map_of d k of Some v \<Rightarrow> Inr v | None \<Rightarrow> Inl (KeyError k))"

section \<open>pathlib paths (POSIX flavour)\<close>

text \<open>
  A pure path is its root (\<open>''''\<close>, \<open>''/''\<close> or \<open>''//''\<close>) and its components. Parsing
  a string splits it at \<open>/\<close> and drops empty and \<open>.\<close> components; \<open>..\<close> is kept. Two paths
  are equal when root and components are equal.
\<close>

datatype path = Path (anchor: string) (parts: "string list")

definition root_of :: "string \<Rightarrow> string" where
  "root_of s =
     (if startswith s ''//'' \<and> \<not> startswith s ''///'' then ''//''
      else if startswith s ''/'' then ''/''
      else [])"

definition parse_path :: "string \<Rightarrow> path" where
  "parse_path s =
     Path (root_of s) (filter (\<lambda>x. x \<noteq> [] \<and> x \<noteq> ''.'') (split_on CHR ''/'' s))"

text \<open>\<open>p / s\<close>: an absolute right operand replaces the left one.\<close>

definition joinpath :: "path \<Rightarrow> string \<Rightarrow> path" where
  "joinpath p s =
     (let q = parse_path s
      in if anchor q \<noteq> [] then q else Path (anchor p) (parts p @ parts q))"

definition name :: "path \<Rightarrow> string" where
  "name p = (if parts p = [] then [] else last (parts p))"

text \<open>
  \<open>suffix\<close> and \<open>stem\<close> as pathlib defines them up to Python 3.13: with \<open>i\<close> the index of
  the last dot of the name, the suffix is \<open>name[i:]\<close> when \<open>0 < i < len(name) - 1\<close> and
  empty otherwise.
\<close>

definition suffix :: "path \<Rightarrow> string" where
  "suffix p =
     (let n = name p
      in case rfind CHR ''.'' n of
           None \<Rightarrow> []
         | Some i \<Rightarrow> if 0 < i \<and> i + 1 < length n then drop i n else [])"

definition stem :: "path \<Rightarrow> string" where
  "stem p =
     (let n = name p
      in case rfind CHR ''.'' n of
           None \<Rightarrow> n
         | Some i \<Rightarrow> if 0 < i \<and> i + 1 < length n then take i n else n)"

definition parent :: "path \<Rightarrow> path" where
  "parent p = (if parts p = [] then p else Path (anchor p) (butlast (parts p)))"

definition str_path :: "path \<Rightarrow> string" where
  "str_path p =
     (if parts p = [] then (if anchor p = [] then ''.'' else anchor p)
      else anchor p @ join_with ''/'' (parts p))"

section \<open>The format catalog\<close>

definition FORMAT_MAP :: "(string \<times> string list) list" where
  "FORMAT_MAP =
    [(''image'', [''png'', ''jpg'', ''jpeg'', ''webp'', ''pdf'', ''tiff'', ''tif'', ''bmp'',
                  ''gif'', ''ico'']),
     (''audio'', [''mp3'', ''wav'', ''ogg'', ''flac'', ''aac'', ''m4a'']),
     (''video'', [''mp4'', ''webm'', ''gif'', ''avi'', ''mov'', ''mkv'']),
     (''spreadsheet'', [''csv'', ''xlsx'', ''xls'', ''pdf'']),
     (''document'', [''pdf'', ''txt'', ''odt'', ''docx'', ''html'', ''rtf'']),
     (''presentation'', [''pdf'', ''pptx'', ''odp'']),
     (''pdf'', [''png'', ''jpg'', ''jpeg'', ''webp'', ''txt''])]"

definition MIME_TO_CATEGORY :: "(string \<times> string) list" where
  "MIME_TO_CATEGORY =
    [(''image'', ''image''),
     (''audio'', ''audio''),
     (''video'', ''video''),
     (''application/pdf'', ''pdf''),
     (''application/vnd.openxmlformats-officedocument.spreadsheetml.sheet'', ''spreadsheet''),
     (''application/vnd.ms-excel'', ''spreadsheet''),
     (''text/csv'', ''spreadsheet''),
     (''application/vnd.openxmlformats-officedocument.wordprocessingml.document'',
      ''document''),
     (''application/msword'', ''document''),
     (''text/plain'', ''document''),
     (''application/vnd.openxmlformats-officedocument.presentationml.presentation'',
      ''presentation''),
     (''application/vnd.ms-powerpoint'', ''presentation'')]"

definition EXT_TO_CATEGORY :: "(string \<times> string) list" where
  "EXT_TO_CATEGORY =
    [(''jpg'', ''image''), (''jpeg'', ''image''), (''png'', ''image''), (''gif'', ''image''),
     (''webp'', ''image''), (''tiff'', ''image''), (''tif'', ''image''), (''bmp'', ''image''),
     (''mp3'', ''audio''), (''wav'', ''audio''), (''ogg'', ''audio''), (''flac'', ''audio''),
     (''aac'', ''audio''), (''m4a'', ''audio''), (''wma'', ''audio''),
     (''mp4'', ''video''), (''webm'', ''video''), (''avi'', ''video''), (''mov'', ''video''),
     (''mkv'', ''video''), (''wmv'', ''video''), (''flv'', ''video''),
     (''csv'', ''spreadsheet''), (''xlsx'', ''spreadsheet''), (''xls'', ''spreadsheet''),
     (''docx'', ''document''), (''doc'', ''document''), (''txt'', ''document''),
     (''odt'', ''document''),
     (''pptx'', ''presentation''), (''ppt'', ''presentation''), (''odp'', ''presentation''),
     (''pdf'', ''pdf'')]"

definition EXT_ALIASES :: "(string \<times> string) list" where
  "EXT_ALIASES = [(''jpeg'', ''jpg''), (''tif'', ''tiff'')]"

section \<open>The world outside the program\<close>

text \<open>
  The file system maps every existing path to its content; distinct paths are distinct
  entries. The trace records, in order, each backend function of the program that is
  entered, each external command that is run, each in-process library operation, and each
  rename.
\<close>

datatype event =
    Call string
  | Exec "string list"
  | Lib string
  | Rename path path

record world =
  files :: "path \<Rightarrow> string option"
  trace :: "event list"

record image =
  mode :: string
  pixels :: string

text \<open>
  What \<open>subprocess.run\<close> does: it raises (\<open>FileNotFoundError\<close> when the executable
  is absent, \<open>TimeoutExpired\<close> when the time limit passes) or completes with a return
  code and the captured standard error; either way the tool may have changed the files.
\<close>

datatype proc_result =
    Raised py_exception "path \<Rightarrow> string option"
  | Completed int string "path \<Rightarrow> string option"

text \<open>
  The capability flags and the behaviour of the libraries and tools, fixed for the life of
  the process; \<open>str_lower\<close> and \<open>str_upper\<close> are \<open>str.lower\<close> and \<open>str.upper\<close>. An opened PDF document is the list of its pages, each page being what
  rendering it gives.
\<close>

record env =
  HAS_FILETYPE :: bool
  HAS_PILLOW :: bool
  HAS_PANDAS :: bool
  HAS_PDFIUM :: bool
  str_lower :: "string \<Rightarrow> string"
  str_upper :: "string \<Rightarrow> string"
  subprocess_run :: "string list \<Rightarrow> nat \<Rightarrow> (path \<Rightarrow> string option) \<Rightarrow> proc_result"
  filetype_guess :: "string \<Rightarrow> (path \<Rightarrow> string option) \<Rightarrow> string option"
  mimetypes_guess_type :: "string \<Rightarrow> string option"
  Image_open :: "path \<Rightarrow> (path \<Rightarrow> string option) \<Rightarrow> py_exception + image"
  Image_convert :: "image \<Rightarrow> string \<Rightarrow> image"
  Image_save :: "image \<Rightarrow> string \<Rightarrow> nat option \<Rightarrow> py_exception + string"
  read_csv :: "path \<Rightarrow> (path \<Rightarrow> string option) \<Rightarrow> py_exception + string"
  read_excel :: "path \<Rightarrow> (path \<Rightarrow> string option) \<Rightarrow> py_exception + string"
  to_csv :: "string \<Rightarrow> py_exception + string"
  to_excel :: "string \<Rightarrow> py_exception + string"
  PdfDocument :: "string \<Rightarrow> (path \<Rightarrow> string option) \<Rightarrow> py_exception + (py_exception + image) list"

definition logged :: "event \<Rightarrow> world \<Rightarrow> world" where
  "logged e w = w\<lparr>trace := trace w @ [e]\<rparr>"

definition exists :: "world \<Rightarrow> path \<Rightarrow> bool" where
  "exists w p = (files w p \<noteq> None)"

definition write_file :: "path \<Rightarrow> string \<Rightarrow> world \<Rightarrow> world" where
  "write_file p c w = w\<lparr>files := (files w)(p \<mapsto> c)\<rparr>"

text \<open>\<open>a.rename(b)\<close> and \<open>a.replace(b)\<close>: the entry moves, replacing what was at \<open>b\<close>.\<close>

definition rename :: "path \<Rightarrow> path \<Rightarrow> world \<Rightarrow> world" where
  "rename a b w = logged (Rename a b) (w\<lparr>files := (files w)(b := files w a, a := None)\<rparr>)"

definition run :: "env \<Rightarrow> string list \<Rightarrow> nat \<Rightarrow> world \<Rightarrow> (py_exception + int \<times> string) \<times> world" where
  "run E argv tmo w =
     (let w1 = logged (Exec argv) w
      in case subprocess_run E argv tmo (files w1) of
           Raised e fs \<Rightarrow> (Inl e, w1\<lparr>files := fs\<rparr>)
         | Completed rc err fs \<Rightarrow> (Inr (rc, err), w1\<lparr>files := fs\<rparr>))"

text \<open>\<open>img.save(dst, fmt, quality=q)\<close>.\<close>

definition save :: "env \<Rightarrow> image \<Rightarrow> path \<Rightarrow> string \<Rightarrow> nat option \<Rightarrow> world \<Rightarrow> (py_exception + unit) \<times> world" where
  "save E img dst fmt q w =
     (let w1 = logged (Lib ''Image.save'') w
      in case Image_save E img fmt q of
           Inl e \<Rightarrow> (Inl e, w1)
         | Inr bytes \<Rightarrow> (Inr (), write_file dst bytes w1))"

definition flatten :: "env \<Rightarrow> image \<Rightarrow> image" where
  "flatten E img =
     (if mode img \<in> set [''RGBA'', ''LA'', ''P''] then Image_convert E img ''RGB'' else img)"

section \<open>Normalisation and classification\<close>

definition normalize_ext :: "env \<Rightarrow> string \<Rightarrow> string" where
  "normalize_ext E ext =
     (let clean = lstrip_dot (str_lower E ext) in dict_get EXT_ALIASES clean clean)"

text \<open>
  \<open>detect_category(filename, mime)\<close>. \<open>if mime:\<close> holds for a hint that is neither
  \<open>None\<close> nor the empty string.
\<close>

definition detect_category :: "env \<Rightarrow> string \<Rightarrow> string option \<Rightarrow> py_exception + string" where
  "detect_category E filename mime =
     (let ext = str_lower E (lstrip_dot (suffix (parse_path filename)))
      in if dict_contains EXT_TO_CATEGORY ext then dict_index EXT_TO_CATEGORY ext
         else (case mime of
                 None \<Rightarrow> Inr ''unknown''
               | Some m \<Rightarrow>
                   if m = [] then Inr ''unknown''
                   else if startswith m ''image/'' then Inr ''image''
                   else if startswith m ''audio/'' then Inr ''audio''
                   else if startswith m ''video/'' then Inr ''video''
                   else if dict_contains MIME_TO_CATEGORY m then dict_index MIME_TO_CATEGORY m
                   else Inr ''unknown''))"

text \<open>
  The classifier as the specification words it: the normalised extension is looked up in
  the extension table; failing that, a present hint is matched by prefix and then looked
  up exactly; failing that, the category is \<open>unknown\<close>.
\<close>

definition classify_spec :: "env \<Rightarrow> string \<Rightarrow> string option \<Rightarrow> string" where
  "classify_spec E filename mime =
     (case map_of EXT_TO_CATEGORY (normalize_ext E (suffix (parse_path filename))) of
        Some c \<Rightarrow> c
      | None \<Rightarrow>
          (case mime of
             None \<Rightarrow> ''unknown''
           | Some m \<Rightarrow>
               if startswith m ''image/'' then ''image''
               else if startswith m ''audio/'' then ''audio''
               else if startswith m ''video/'' then ''video''
               else (case map_of MIME_TO_CATEGORY m of
                       Some c \<Rightarrow> c
                     | None \<Rightarrow> ''unknown'')))"

section \<open>Suggestions\<close>

text \<open>
  The suggestion list of \<open>upload_file\<close>: the catalog row of the category without the
  entries that normalise to the normalised input extension.
\<close>

definition suggestions :: "env \<Rightarrow> string \<Rightarrow> string \<Rightarrow> string list" where
  "suggestions E category ext =
     (let row = dict_get FORMAT_MAP category [];
          input_ext = normalize_ext E ext
      in [s \<leftarrow> row. normalize_ext E s \<noteq> input_ext])"

section \<open>The backend adapters\<close>

definition convert_image :: "env \<Rightarrow> path \<Rightarrow> path \<Rightarrow> string \<Rightarrow> world \<Rightarrow> (py_exception + unit) \<times> world" where
  "convert_image E src dst target w =
     (let w0 = logged (Call ''convert_image'') w
      in if \<not> HAS_PILLOW E then (Inl (RuntimeError ''Pillow not installed''), w0)
         else let w1 = logged (Lib ''Image.open'') w0
              in case Image_open E src (files w1) of
                   Inl e \<Rightarrow> (Inl e, w1)
                 | Inr img \<Rightarrow>
                     if target = ''jpg'' then save E (flatten E img) dst ''JPEG'' (Some 95) w1
                     else if target = ''pdf'' then save E (flatten E img) dst ''PDF'' None w1
                     else let fmt_map = [(''webp'', ''WEBP''), (''png'', ''PNG''),
                                         (''tiff'', ''TIFF''), (''bmp'', ''BMP''),
                                         (''gif'', ''GIF''), (''ico'', ''ICO'')];
                              fmt = dict_get fmt_map target (str_upper E target)
                          in save E img dst fmt None w1)"

definition convert_media :: "env \<Rightarrow> path \<Rightarrow> path \<Rightarrow> string \<Rightarrow> world \<Rightarrow> (py_exception + unit) \<times> world" where
  "convert_media E src dst target w =
     (let w0 = logged (Call ''convert_media'') w
      in case run E [''ffmpeg'', ''-y'', ''-i'', str_path src, str_path dst] 300 w0 of
           (Inl e, w1) \<Rightarrow> (Inl e, w1)
         | (Inr (rc, err), w1) \<Rightarrow>
             if rc \<noteq> 0 then (Inl (RuntimeError (''ffmpeg error: '' @ last_chars 500 err)), w1)
             else (Inr (), w1))"

definition office_fmt_map :: "(string \<times> string) list" where
  "office_fmt_map =
     [(''pdf'', ''pdf''), (''txt'', ''txt''), (''odt'', ''odt''),
      (''docx'', ''docx''), (''html'', ''html''), (''odp'', ''odp''),
      (''pptx'', ''pptx''), (''csv'', ''csv''), (''xlsx'', ''xlsx'')]"

definition office_argv :: "path \<Rightarrow> path \<Rightarrow> string \<Rightarrow> string list" where
  "office_argv src dst lo_format =
     [''libreoffice'', ''--headless'', ''--convert-to'', lo_format,
      ''--outdir'', str_path (parent dst), str_path src]"

definition convert_office :: "env \<Rightarrow> path \<Rightarrow> path \<Rightarrow> string \<Rightarrow> world \<Rightarrow> (py_exception + unit) \<times> world" where
  "convert_office E src dst target w =
     (let w0 = logged (Call ''convert_office'') w;
          lo_format = dict_get office_fmt_map target target
      in case run E (office_argv src dst lo_format) 120 w0 of
           (Inl e, w1) \<Rightarrow> (Inl e, w1)
         | (Inr (rc, err), w1) \<Rightarrow>
             if rc \<noteq> 0
             then (Inl (RuntimeError (''LibreOffice error: '' @ last_chars 500 err)), w1)
             else let expected = joinpath (parent dst) (stem src @ ''.'' @ lo_format)
                  in if exists w1 expected \<and> expected \<noteq> dst
                     then (Inr (), rename expected dst w1)
                     else (Inr (), w1))"

definition read_source :: "env \<Rightarrow> path \<Rightarrow> world \<Rightarrow> (py_exception + string) \<times> world" where
  "read_source E src w =
     (let ext = str_lower E (suffix src)
      in if ext = ''.csv''
         then (read_csv E src (files w), logged (Lib ''pandas.read_csv'') w)
         else (read_excel E src (files w), logged (Lib ''pandas.read_excel'') w))"

definition write_frame :: "py_exception + string \<Rightarrow> string \<Rightarrow> path \<Rightarrow> world \<Rightarrow> (py_exception + unit) \<times> world" where
  "write_frame serialized label dst w =
     (let w1 = logged (Lib label) w
      in case serialized of
           Inl e \<Rightarrow> (Inl e, w1)
         | Inr bytes \<Rightarrow> (Inr (), write_file dst bytes w1))"

definition convert_spreadsheet :: "env \<Rightarrow> path \<Rightarrow> path \<Rightarrow> string \<Rightarrow> world \<Rightarrow> (py_exception + unit) \<times> world" where
  "convert_spreadsheet E src dst target w =
     (let w0 = logged (Call ''convert_spreadsheet'') w
      in if \<not> HAS_PANDAS E then (Inl (RuntimeError ''pandas not installed''), w0)
         else case read_source E src w0 of
                (Inl e, w1) \<Rightarrow> (Inl e, w1)
              | (Inr df, w1) \<Rightarrow>
                  if target = ''csv'' then write_frame (to_csv E df) ''DataFrame.to_csv'' dst w1
                  else if target = ''xlsx''
                  then write_frame (to_excel E df) ''DataFrame.to_excel'' dst w1
                  else if target = ''pdf'' then convert_office E src dst ''pdf'' w1
                  else (Inl (RuntimeError (''Unsupported spreadsheet target: '' @ target)), w1))"

section \<open>The PDF adapter\<close>

definition poppler_argv :: "path \<Rightarrow> path \<Rightarrow> string \<Rightarrow> string list" where
  "poppler_argv src dst target =
     (let poppler_target = (if target = ''jpg'' then ''jpeg'' else target);
          prefix = joinpath (parent dst) (stem dst)
      in [''pdftoppm'', ''-r'', ''150'', ''-singlefile'', ''-'' @ poppler_target,
          str_path src, str_path prefix])"

definition poppler_candidates :: "path \<Rightarrow> string \<Rightarrow> path list" where
  "poppler_candidates dst target =
     [joinpath (parent dst) (stem dst @ ''.'' @ target)] @
     (if target = ''jpg'' then [joinpath (parent dst) (stem dst @ ''.jpeg'')] else [])"

text \<open>The loop over the candidates: the first one that exists is moved into place.\<close>

fun take_candidate :: "path list \<Rightarrow> path \<Rightarrow> world \<Rightarrow> bool \<times> world" where
  "take_candidate [] dst w = (False, w)"
| "take_candidate (candidate # rest) dst w =
     (if exists w candidate
      then (if candidate \<noteq> dst then (True, rename candidate dst w) else (True, w))
      else take_candidate rest dst w)"

definition convert_pdf_with_poppler :: "env \<Rightarrow> path \<Rightarrow> path \<Rightarrow> string \<Rightarrow> world \<Rightarrow> (py_exception + bool) \<times> world" where
  "convert_pdf_with_poppler E src dst target w =
     (let w0 = logged (Call ''convert_pdf_with_poppler'') w
      in case run E (poppler_argv src dst target) 60 w0 of
           (Inl e, w1) \<Rightarrow>
             (case e of
                FileNotFoundError m \<Rightarrow> (Inr False, w1)
              | _ \<Rightarrow> (Inl e, w1))
         | (Inr (rc, err), w1) \<Rightarrow>
             if rc \<noteq> 0 then (Inr False, w1)
             else (case take_candidate (poppler_candidates dst target) dst w1 of
                     (found, w2) \<Rightarrow> (Inr found, w2)))"

text \<open>
  The statements of the \<open>try\<close> block of \<open>convert_pdf_with_pdfium\<close> that follow the opening
  of the document: the page count check, the rendering of the first page and the save.
\<close>

definition pdfium_try_block :: "env \<Rightarrow> (py_exception + image) list \<Rightarrow> path \<Rightarrow> string \<Rightarrow> world \<Rightarrow> (py_exception + bool) \<times> world" where
  "pdfium_try_block E pdf dst target w =
     (if length pdf = 0 then (Inl (RuntimeError ''PDF has no pages''), w)
      else let w1 = logged (Lib ''page.render'') w
           in case pdf ! 0 of
                Inl e \<Rightarrow> (Inl e, w1)
              | Inr pil_image \<Rightarrow>
                  if target = ''jpg''
                  then (case save E (flatten E pil_image) dst ''JPEG'' (Some 92) w1 of
                          (Inl e, w2) \<Rightarrow> (Inl e, w2)
                        | (Inr u, w2) \<Rightarrow> (Inr True, w2))
                  else if target = ''png''
                  then (case save E pil_image dst ''PNG'' None w1 of
                          (Inl e, w2) \<Rightarrow> (Inl e, w2)
                        | (Inr u, w2) \<Rightarrow> (Inr True, w2))
                  else if target = ''webp''
                  then (case save E pil_image dst ''WEBP'' (Some 90) w1 of
                          (Inl e, w2) \<Rightarrow> (Inl e, w2)
                        | (Inr u, w2) \<Rightarrow> (Inr True, w2))
                  else (Inr False, w1))"

text \<open>
  \<open>except Exception: return False\<close> turns every exception of the \<open>try\<close> block into
  the result \<open>False\<close>; \<open>finally\<close> closes a document that was opened.
\<close>

definition convert_pdf_with_pdfium :: "env \<Rightarrow> path \<Rightarrow> path \<Rightarrow> string \<Rightarrow> world \<Rightarrow> bool \<times> world" where
  "convert_pdf_with_pdfium E src dst target w =
     (let w0 = logged (Call ''convert_pdf_with_pdfium'') w
      in if \<not> HAS_PDFIUM E then (False, w0)
         else let w1 = logged (Lib ''pdfium.PdfDocument'') w0
              in case PdfDocument E (str_path src) (files w1) of
                   Inl e \<Rightarrow> (False, w1)
                 | Inr pdf \<Rightarrow>
                     (case pdfium_try_block E pdf dst target w1 of
                        (Inl e, w2) \<Rightarrow> (False, logged (Lib ''pdf.close'') w2)
                      | (Inr ok, w2) \<Rightarrow> (ok, logged (Lib ''pdf.close'') w2)))"

definition no_backend_message :: string where
  "no_backend_message =
     ''No PDF-to-image backend available. Install poppler (pdftoppm) or pypdfium2.''"

definition convert_pdf :: "env \<Rightarrow> path \<Rightarrow> path \<Rightarrow> string \<Rightarrow> world \<Rightarrow> (py_exception + unit) \<times> world" where
  "convert_pdf E src dst target w =
     (let w0 = logged (Call ''convert_pdf'') w
      in if target \<in> set [''png'', ''jpg'']
         then (case convert_pdf_with_poppler E src dst target w0 of
                 (Inl e, w1) \<Rightarrow> (Inl e, w1)
               | (Inr True, w1) \<Rightarrow> (Inr (), w1)
               | (Inr False, w1) \<Rightarrow>
                   (case convert_pdf_with_pdfium E src dst target w1 of
                      (True, w2) \<Rightarrow> (Inr (), w2)
                    | (False, w2) \<Rightarrow> (Inl (RuntimeError no_backend_message), w2)))
         else if target = ''webp''
         then (case convert_pdf_with_pdfium E src dst target w0 of
                 (True, w1) \<Rightarrow> (Inr (), w1)
               | (False, w1) \<Rightarrow> (Inl (RuntimeError ''PDF to WEBP requires pypdfium2.''), w1))
         else if target = ''txt''
         then (case run E [''pdftotext'', str_path src, str_path dst] 60 w0 of
                 (Inl e, w1) \<Rightarrow> (Inl e, w1)
               | (Inr (rc, err), w1) \<Rightarrow>
                   if rc \<noteq> 0 then (Inl (RuntimeError (''pdftotext error: '' @ err)), w1)
                   else (Inr (), w1))
         else (Inl (RuntimeError (''Unsupported PDF target: '' @ target)), w0))"

section \<open>The endpoints\<close>

definition UPLOAD_DIR :: path where
  "UPLOAD_DIR = parse_path ''uploads''"

definition OUTPUT_DIR :: path where
  "OUTPUT_DIR = parse_path ''outputs''"

text \<open>What leaves a request handler: an HTTP error, or an exception nothing caught.\<close>

datatype raised =
    HTTPException nat string
  | Uncaught py_exception

record UploadFile =
  upload_filename :: string
  content_type :: "string option"
  file_data :: string

datatype UploadResponse =
  UploadResponse (resp_file_id: string) (resp_filename: string) (resp_category: string)
    (resp_mime_type: string) (resp_suggestions: "string list")

record ConvertRequest =
  file_id :: string
  filename :: string
  target_format :: string

datatype FileResponse =
  FileResponse (response_path: string) (response_filename: string) (media_type: string)

text \<open>
  MIME detection of \<open>upload_file\<close>: the declared content type, overridden by what
  \<open>filetype\<close> recognises in the saved file; when that leaves nothing or the generic
  type, the guess from the file name, if there is one.
\<close>

definition detect_mime :: "env \<Rightarrow> UploadFile \<Rightarrow> path \<Rightarrow> world \<Rightarrow> string" where
  "detect_mime E file save_path w =
     (let mime0 = (case content_type file of None \<Rightarrow> [] | Some c \<Rightarrow> c);
          mime1 = (if HAS_FILETYPE E
                   then (case filetype_guess E (str_path save_path) (files w) of
                           Some m \<Rightarrow> m
                         | None \<Rightarrow> mime0)
                   else mime0)
      in if mime1 = [] \<or> mime1 = ''application/octet-stream''
         then (case mimetypes_guess_type E (upload_filename file) of
                 Some guessed \<Rightarrow> if guessed \<noteq> [] then guessed else mime1
               | None \<Rightarrow> mime1)
         else mime1)"

text \<open>\<open>upload_file\<close>; the fresh identifier \<open>uuid.uuid4()\<close> is the argument \<open>fid\<close>.\<close>

definition upload_file :: "env \<Rightarrow> string \<Rightarrow> UploadFile \<Rightarrow> world \<Rightarrow> (raised + UploadResponse) \<times> world" where
  "upload_file E fid file w =
     (let ext = suffix (parse_path (upload_filename file));
          save_path = joinpath UPLOAD_DIR (fid @ ext);
          w1 = write_file save_path (file_data file) w;
          mime = detect_mime E file save_path w1
      in case detect_category E (upload_filename file) (Some mime) of
           Inl e \<Rightarrow> (Inl (Uncaught e), w1)
         | Inr category \<Rightarrow>
             (Inr (UploadResponse fid (upload_filename file) category mime
                     (suggestions E category
                        (lstrip_dot (suffix (parse_path (upload_filename file)))))),
              w1))"

definition allowed_targets :: "env \<Rightarrow> string \<Rightarrow> string set" where
  "allowed_targets E category =
     set (map (normalize_ext E) (dict_get FORMAT_MAP category []))"

text \<open>
  The \<open>try\<close> block of \<open>convert_file\<close>: an exception of an adapter is caught by the
  handler that follows, the \<open>HTTPException\<close> of the last branch is raised again.
\<close>

definition dispatch :: "env \<Rightarrow> string \<Rightarrow> path \<Rightarrow> path \<Rightarrow> string \<Rightarrow> world \<Rightarrow> (raised + unit) \<times> world" where
  "dispatch E category input_path output_path target w =
     (let caught = (\<lambda>r. case r of
                          (Inl e, w1) \<Rightarrow>
                            (Inl (HTTPException 500 (''Conversion failed: '' @ str_exc e)), w1)
                        | (Inr u, w1) \<Rightarrow> (Inr u, w1))
      in if category = ''image'' then caught (convert_image E input_path output_path target w)
         else if category \<in> set [''audio'', ''video'']
         then caught (convert_media E input_path output_path target w)
         else if category = ''spreadsheet''
         then caught (convert_spreadsheet E input_path output_path target w)
         else if category \<in> set [''document'', ''presentation'']
         then caught (convert_office E input_path output_path target w)
         else if category = ''pdf'' then caught (convert_pdf E input_path output_path target w)
         else (Inl (HTTPException 400 (''Unsupported category: '' @ category)), w))"

definition convert_file :: "env \<Rightarrow> ConvertRequest \<Rightarrow> world \<Rightarrow> (raised + FileResponse) \<times> world" where
  "convert_file E req w =
     (let input_ext = suffix (parse_path (filename req));
          input_path = joinpath UPLOAD_DIR (file_id req @ input_ext)
      in if \<not> exists w input_path then (Inl (HTTPException 404 ''Upload not found''), w)
         else case detect_category E (filename req) None of
                Inl e \<Rightarrow> (Inl (Uncaught e), w)
              | Inr category \<Rightarrow>
                  let target_raw = lstrip_dot (str_lower E (target_format req));
                      target = normalize_ext E target_raw;
                      output_ext = target_raw;
                      output_filename = stem (parse_path (filename req)) @ ''.'' @ output_ext;
                      output_path = joinpath OUTPUT_DIR (file_id req @ ''_'' @ output_filename)
                  in if target \<notin> allowed_targets E category
                     then (Inl (HTTPException 400
                                  (''Target .'' @ target_raw @ '' is not supported for '' @
                                   category)), w)
                     else case dispatch E category input_path output_path target w of
                            (Inl e, w1) \<Rightarrow> (Inl e, w1)
                          | (Inr u, w1) \<Rightarrow>
                              if \<not> exists w1 output_path
                              then (Inl (HTTPException 500
                                           ''Conversion produced no output file''), w1)
                              else (Inr (FileResponse (str_path output_path) output_filename
                                           ''application/octet-stream''), w1))"

section \<open>What a tool run left behind\<close>

text \<open>Readings of the result of \<open>subprocess.run\<close>, used to state the properties.\<close>

fun files_after :: "proc_result \<Rightarrow> path \<Rightarrow> string option" where
  "files_after (Raised e fs) = fs"
| "files_after (Completed rc err fs) = fs"

fun tool_absent :: "proc_result \<Rightarrow> bool" where
  "tool_absent (Raised (FileNotFoundError m) fs) = True"
| "tool_absent r = False"

fun exit_code :: "proc_result \<Rightarrow> int option" where
  "exit_code (Raised e fs) = None"
| "exit_code (Completed rc err fs) = Some rc"


section \<open>Sample environments\<close>

text \<open>
  Concrete environments, worlds and uploads at which the theorems are instantiated. In
  \<open>bare_env\<close> no optional library is installed and no external tool is on the path;
  the case tables are the ASCII ones, which are those of Python on the ASCII strings at
  which this environment is used; saving an image writes its pixels, a data frame is the
  text of its source.
\<close>

definition bare_env :: env where
  "bare_env =
     \<lparr>HAS_FILETYPE = False, HAS_PILLOW = False, HAS_PANDAS = False, HAS_PDFIUM = False,
      str_lower = ascii_lower, str_upper = ascii_upper,
      subprocess_run = (\<lambda>argv tmo fs. Raised (FileNotFoundError ''No such file or directory'') fs),
      filetype_guess = (\<lambda>p fs. None),
      mimetypes_guess_type = (\<lambda>n. None),
      Image_open = (\<lambda>p fs. Inl (OtherException ''cannot identify image file'')),
      Image_convert = (\<lambda>img m. img\<lparr>mode := m\<rparr>),
      Image_save = (\<lambda>img fmt q. Inr (pixels img)),
      read_csv = (\<lambda>p fs. case fs p of None \<Rightarrow> Inl (FileNotFoundError ''No such file'') | Some c \<Rightarrow> Inr c),
      read_excel = (\<lambda>p fs. case fs p of None \<Rightarrow> Inl (FileNotFoundError ''No such file'') | Some c \<Rightarrow> Inr c),
      to_csv = (\<lambda>df. Inr df),
      to_excel = (\<lambda>df. Inr df),
      PdfDocument = (\<lambda>s fs. Inl (OtherException ''Failed to load document''))\<rparr>"

text \<open>pypdfium2 is installed and refuses every file at load.\<close>

definition pdfium_env :: env where
  "pdfium_env = bare_env\<lparr>HAS_PDFIUM := True\<rparr>"

text \<open>pypdfium2 is installed and every PDF opens with one page that renders.\<close>

definition one_page_env :: env where
  "one_page_env =
     bare_env\<lparr>HAS_PDFIUM := True,
              PdfDocument := (\<lambda>s fs. Inr [Inr \<lparr>mode = ''RGB'', pixels = ''page one''\<rparr>])\<rparr>"

text \<open>As before, with a pdftoppm that is installed and does not finish in time.\<close>

definition timeout_env :: env where
  "timeout_env =
     one_page_env\<lparr>subprocess_run :=
       (\<lambda>argv tmo fs. Raised (TimeoutExpired ''timed out after 60 seconds'') fs)\<rparr>"

text \<open>pandas is installed.\<close>

definition pandas_env :: env where
  "pandas_env = bare_env\<lparr>HAS_PANDAS := True\<rparr>"

text \<open>LibreOffice is installed and writes \<open>outputs/notes.pdf\<close>.\<close>

definition office_env :: env where
  "office_env =
     bare_env\<lparr>subprocess_run :=
       (\<lambda>argv tmo fs. Completed 0 [] (fs(parse_path ''outputs/notes.pdf'' \<mapsto> ''notes as pdf'')))\<rparr>"

text \<open>A world whose only file is at the path \<open>p\<close>.\<close>

definition stored :: "string \<Rightarrow> string \<Rightarrow> world" where
  "stored p c = \<lparr>files = [parse_path p \<mapsto> c], trace = []\<rparr>"

text \<open>An upload without an extension, declared as \<open>text/csv\<close>.\<close>

definition csv_upload :: UploadFile where
  "csv_upload = \<lparr>upload_filename = ''data'', content_type = Some ''text/csv'', file_data = ''a,b''\<rparr>"

text \<open>
  A case mapping that knows one letter beyond ASCII: the Kelvin sign U+212A, the bytes
  E2 84 AA, is lowered to k, as \<open>str.lower\<close> does; every other byte goes through the
  ASCII table.
\<close>

fun kelvin_lower :: "string \<Rightarrow> string" where
  "kelvin_lower [] = []"
| "kelvin_lower (a # s) =
     (if a = CHR 0xE2 \<and> take 2 s = [CHR 0x84, CHR 0xAA]
      then CHR ''k'' # kelvin_lower (drop 2 s)
      else ascii_lower_char a # kelvin_lower s)"

definition kelvin_env :: env where
  "kelvin_env = bare_env\<lparr>str_lower := kelvin_lower\<rparr>"

section \<open>Facts about strings and the tables\<close>

lemmas letters = upper_letters_def lower_letters_def

text \<open>The ASCII tables have the three properties that the theorems ask of \<open>str.lower\<close>.\<close>

lemma ascii_lower_char_idem: "ascii_lower_char (ascii_lower_char c) = ascii_lower_char c"
  unfolding ascii_lower_char_def letters by simp

lemma ascii_lower_char_dot: "(ascii_lower_char c = CHR ''.'') = (c = CHR ''.'')"
  unfolding ascii_lower_char_def letters by auto

lemma ascii_lower_idem: "ascii_lower (ascii_lower s) = ascii_lower s"
  by (simp add: ascii_lower_def ascii_lower_char_idem)

lemma lstrip_dot_ascii_lower: "lstrip_dot (ascii_lower s) = ascii_lower (lstrip_dot s)"
  by (simp add: lstrip_dot_def ascii_lower_def dropWhile_map comp_def ascii_lower_char_dot)

lemma bare_env_lower: "str_lower bare_env = ascii_lower"
  by (simp add: bare_env_def)

lemma lstrip_dot_idem: "lstrip_dot (lstrip_dot s) = lstrip_dot s"
  unfolding lstrip_dot_def by (induction s) auto

lemma alias_cases:
  "dict_get EXT_ALIASES e e =
     (if e = ''jpeg'' then ''jpg'' else if e = ''tif'' then ''tiff'' else e)"
  by (simp add: dict_get_def EXT_ALIASES_def)

lemma clean_fixed:
  assumes idem: "\<And>s. str_lower E (str_lower E s) = str_lower E s"
    and comm: "\<And>s. lstrip_dot (str_lower E s) = str_lower E (lstrip_dot s)"
  shows "lstrip_dot (str_lower E (lstrip_dot (str_lower E ext))) = lstrip_dot (str_lower E ext)"
proof -
  have "lstrip_dot (str_lower E (lstrip_dot (str_lower E ext))) =
        str_lower E (lstrip_dot (lstrip_dot (str_lower E ext)))"
    by (rule comm)
  also have "\<dots> = str_lower E (lstrip_dot (str_lower E ext))"
    by (simp add: lstrip_dot_idem)
  also have "\<dots> = lstrip_dot (str_lower E (str_lower E ext))"
    by (rule comm [symmetric])
  also have "\<dots> = lstrip_dot (str_lower E ext)"
    by (simp add: idem)
  finally show ?thesis .
qed

lemmas ascii_eval = is_ascii_def ascii_lower_def ascii_lower_char_def letters lstrip_dot_def

lemma normalize_literals:
  assumes ascii: "\<And>s. is_ascii s \<Longrightarrow> str_lower E s = ascii_lower s"
  shows
  "normalize_ext E ''png'' = ''png''" "normalize_ext E ''jpg'' = ''jpg''"
  "normalize_ext E ''jpeg'' = ''jpg''" "normalize_ext E ''webp'' = ''webp''"
  "normalize_ext E ''pdf'' = ''pdf''" "normalize_ext E ''tiff'' = ''tiff''"
  "normalize_ext E ''tif'' = ''tiff''" "normalize_ext E ''bmp'' = ''bmp''"
  "normalize_ext E ''gif'' = ''gif''" "normalize_ext E ''ico'' = ''ico''"
  "normalize_ext E ''mp3'' = ''mp3''" "normalize_ext E ''wav'' = ''wav''"
  "normalize_ext E ''ogg'' = ''ogg''" "normalize_ext E ''flac'' = ''flac''"
  "normalize_ext E ''aac'' = ''aac''" "normalize_ext E ''m4a'' = ''m4a''"
  "normalize_ext E ''mp4'' = ''mp4''" "normalize_ext E ''webm'' = ''webm''"
  "normalize_ext E ''avi'' = ''avi''" "normalize_ext E ''mov'' = ''mov''"
  "normalize_ext E ''mkv'' = ''mkv''" "normalize_ext E ''csv'' = ''csv''"
  "normalize_ext E ''xlsx'' = ''xlsx''" "normalize_ext E ''xls'' = ''xls''"
  "normalize_ext E ''txt'' = ''txt''" "normalize_ext E ''odt'' = ''odt''"
  "normalize_ext E ''docx'' = ''docx''" "normalize_ext E ''html'' = ''html''"
  "normalize_ext E ''rtf'' = ''rtf''" "normalize_ext E ''pptx'' = ''pptx''"
  "normalize_ext E ''odp'' = ''odp''" "normalize_ext E [] = []"
  by (simp_all add: normalize_ext_def Let_def ascii ascii_eval alias_cases)

lemma normalize_ext_fixed:
  assumes idem: "\<And>s. str_lower E (str_lower E s) = str_lower E s"
    and comm: "\<And>s. lstrip_dot (str_lower E s) = str_lower E (lstrip_dot s)"
    and ascii: "\<And>s. is_ascii s \<Longrightarrow> str_lower E s = ascii_lower s"
  shows "normalize_ext E (normalize_ext E x) = normalize_ext E x"
proof -
  define clean where "clean = lstrip_dot (str_lower E x)"
  have fx: "lstrip_dot (str_lower E clean) = clean"
    unfolding clean_def using idem comm by (rule clean_fixed)
  have nx: "normalize_ext E x = dict_get EXT_ALIASES clean clean"
    by (simp add: normalize_ext_def Let_def clean_def)
  show ?thesis
  proof (cases "clean = ''jpeg'' \<or> clean = ''tif''")
    case True
    then show ?thesis
      unfolding nx by (auto simp: alias_cases normalize_literals [OF ascii])
  next
    case False
    then have "dict_get EXT_ALIASES clean clean = clean"
      by (simp add: alias_cases)
    then show ?thesis
      unfolding nx by (simp add: normalize_ext_def Let_def fx)
  qed
qed

lemma target_raw_normal:
  assumes idem: "\<And>s. str_lower E (str_lower E s) = str_lower E s"
    and comm: "\<And>s. lstrip_dot (str_lower E s) = str_lower E (lstrip_dot s)"
  shows "normalize_ext E (lstrip_dot (str_lower E t)) = normalize_ext E t"
  by (simp add: normalize_ext_def Let_def clean_fixed [OF idem comm])

lemma ext_alias_category:
  "map_of EXT_TO_CATEGORY (dict_get EXT_ALIASES e e) = map_of EXT_TO_CATEGORY e"
  by (simp add: alias_cases EXT_TO_CATEGORY_def)

lemma normalized_suffix_category:
  assumes comm: "\<And>s. lstrip_dot (str_lower E s) = str_lower E (lstrip_dot s)"
  shows "map_of EXT_TO_CATEGORY (normalize_ext E s) =
         map_of EXT_TO_CATEGORY (str_lower E (lstrip_dot s))"
  by (simp add: normalize_ext_def Let_def ext_alias_category comm)

lemma detect_category_refines:
  assumes comm: "\<And>s. lstrip_dot (str_lower E s) = str_lower E (lstrip_dot s)"
  shows "detect_category E fname mime = Inr (classify_spec E fname mime)"
proof -
  define e where "e = str_lower E (lstrip_dot (suffix (parse_path fname)))"
  have k: "map_of EXT_TO_CATEGORY (normalize_ext E (suffix (parse_path fname))) =
           map_of EXT_TO_CATEGORY e"
    by (simp add: normalized_suffix_category [OF comm] e_def)
  show ?thesis
  proof (cases "map_of EXT_TO_CATEGORY e")
    case (Some c)
    then show ?thesis
      unfolding detect_category_def classify_spec_def k e_def [symmetric]
      by (simp add: dict_contains_def dict_index_def)
  next
    case None
    have empty_mime: "map_of MIME_TO_CATEGORY [] = None"
      by (simp add: MIME_TO_CATEGORY_def)
    show ?thesis
      unfolding detect_category_def classify_spec_def k e_def [symmetric]
      using None
      by (auto simp: dict_contains_def dict_index_def startswith_def empty_mime
          split: option.splits)
  qed
qed

section \<open>Facts about the catalog\<close>

lemma row_cases:
  "dict_get FORMAT_MAP category [] =
     (if category = ''image'' then [''png'', ''jpg'', ''jpeg'', ''webp'', ''pdf'', ''tiff'', ''tif'', ''bmp'', ''gif'', ''ico'']
      else if category = ''audio'' then [''mp3'', ''wav'', ''ogg'', ''flac'', ''aac'', ''m4a'']
      else if category = ''video'' then [''mp4'', ''webm'', ''gif'', ''avi'', ''mov'', ''mkv'']
      else if category = ''spreadsheet'' then [''csv'', ''xlsx'', ''xls'', ''pdf'']
      else if category = ''document'' then [''pdf'', ''txt'', ''odt'', ''docx'', ''html'', ''rtf'']
      else if category = ''presentation'' then [''pdf'', ''pptx'', ''odp'']
      else if category = ''pdf'' then [''png'', ''jpg'', ''jpeg'', ''webp'', ''txt'']
      else [])"
  by (simp add: dict_get_def FORMAT_MAP_def)

lemma rows_closed_all:
  assumes ascii: "\<And>s. is_ascii s \<Longrightarrow> str_lower E s = ascii_lower s"
  shows "list_all (\<lambda>(c, row). list_all (\<lambda>s. normalize_ext E s \<in> set row) row) FORMAT_MAP"
  by (simp add: FORMAT_MAP_def normalize_literals [OF ascii])

lemma row_closed:
  assumes ascii: "\<And>s. is_ascii s \<Longrightarrow> str_lower E s = ascii_lower s"
  shows "set (map (normalize_ext E) (dict_get FORMAT_MAP category [])) \<subseteq>
         set (dict_get FORMAT_MAP category [])"
proof (cases "map_of FORMAT_MAP category")
  case None
  then show ?thesis by (simp add: dict_get_def)
next
  case (Some row)
  then have "(category, row) \<in> set FORMAT_MAP" by (rule map_of_SomeD)
  with rows_closed_all [OF ascii] have "list_all (\<lambda>s. normalize_ext E s \<in> set row) row"
    unfolding list_all_iff by fastforce
  then have "\<forall>s \<in> set row. normalize_ext E s \<in> set row"
    unfolding list_all_iff .
  then show ?thesis
    using Some by (auto simp: dict_get_def)
qed

lemma allowed_iff_row:
  assumes idem: "\<And>s. str_lower E (str_lower E s) = str_lower E s"
    and comm: "\<And>s. lstrip_dot (str_lower E s) = str_lower E (lstrip_dot s)"
    and ascii: "\<And>s. is_ascii s \<Longrightarrow> str_lower E s = ascii_lower s"
  shows "(normalize_ext E t \<in> allowed_targets E category) =
         (normalize_ext E t \<in> set (dict_get FORMAT_MAP category []))"
proof
  assume "normalize_ext E t \<in> allowed_targets E category"
  then show "normalize_ext E t \<in> set (dict_get FORMAT_MAP category [])"
    unfolding allowed_targets_def using row_closed [OF ascii] by blast
next
  assume "normalize_ext E t \<in> set (dict_get FORMAT_MAP category [])"
  then have "normalize_ext E (normalize_ext E t) \<in> allowed_targets E category"
    unfolding allowed_targets_def by simp
  then show "normalize_ext E t \<in> allowed_targets E category"
    by (simp add: normalize_ext_fixed [OF idem comm ascii])
qed

lemma table_categories:
  "map_of EXT_TO_CATEGORY e = Some c \<Longrightarrow> c \<in> set (map fst FORMAT_MAP)"
proof -
  assume "map_of EXT_TO_CATEGORY e = Some c"
  then have "(e, c) \<in> set EXT_TO_CATEGORY" by (rule map_of_SomeD)
  then have "c \<in> snd ` set EXT_TO_CATEGORY" by force
  also have "snd ` set EXT_TO_CATEGORY \<subseteq> set (map fst FORMAT_MAP)"
    by (simp add: EXT_TO_CATEGORY_def FORMAT_MAP_def)
  finally show ?thesis .
qed

lemma detect_None_cases:
  "detect_category E fname None = Inr c \<Longrightarrow> c \<in> set (map fst FORMAT_MAP) \<or> c = ''unknown''"
  unfolding detect_category_def Let_def dict_contains_def dict_index_def
  by (auto split: option.splits if_splits dest: table_categories)

lemma detect_None_total: "\<exists>c. detect_category E fname None = Inr c"
  unfolding detect_category_def Let_def dict_contains_def dict_index_def
  by (auto split: option.splits)

lemma unknown_row: "c \<notin> set (map fst FORMAT_MAP) \<Longrightarrow> dict_get FORMAT_MAP c [] = []"
  by (simp add: dict_get_def map_of_eq_None_iff [THEN iffD2])

lemma unknown_allowed_empty:
  "c \<notin> set (map fst FORMAT_MAP) \<Longrightarrow> allowed_targets E c = {}"
  by (simp add: allowed_targets_def unknown_row)

section \<open>Facts about the world\<close>

lemma files_logged [simp]: "files (logged e w) = files w"
  by (simp add: logged_def)

lemma trace_logged [simp]: "trace (logged e w) = trace w @ [e]"
  by (simp add: logged_def)

lemma exists_fun: "exists w = (\<lambda>p. files w p \<noteq> None)"
  by (rule ext) (simp add: exists_def)

lemma run_completed:
  "subprocess_run E argv tmo (files w) = Completed rc err fs \<Longrightarrow>
   run E argv tmo w = (Inr (rc, err), \<lparr>files = fs, trace = trace w @ [Exec argv]\<rparr>)"
  by (simp add: run_def logged_def)

lemma run_raised:
  "subprocess_run E argv tmo (files w) = Raised e fs \<Longrightarrow>
   run E argv tmo w = (Inl e, \<lparr>files = fs, trace = trace w @ [Exec argv]\<rparr>)"
  by (simp add: run_def logged_def)

lemma run_eq:
  "run E argv tmo w =
     (case subprocess_run E argv tmo (files w) of
        Raised e fs \<Rightarrow> (Inl e, \<lparr>files = fs, trace = trace w @ [Exec argv]\<rparr>)
      | Completed rc err fs \<Rightarrow> (Inr (rc, err), \<lparr>files = fs, trace = trace w @ [Exec argv]\<rparr>))"
  by (simp add: run_def logged_def split: proc_result.splits)

lemmas path_eval = parse_path_def root_of_def startswith_def joinpath_def name_def suffix_def
  stem_def parent_def str_path_def UPLOAD_DIR_def OUTPUT_DIR_def

lemmas string_eval = ascii_lower_def ascii_lower_char_def ascii_upper_def ascii_upper_char_def
  letters lstrip_dot_def is_ascii_def

lemmas world_eval = logged_def exists_def write_file_def rename_def run_def save_def
  flatten_def stored_def Let_def

lemmas pdf_eval = convert_pdf_def convert_pdf_with_poppler_def convert_pdf_with_pdfium_def
  pdfium_try_block_def poppler_argv_def poppler_candidates_def no_backend_message_def

lemmas router_eval = convert_file_def dispatch_def allowed_targets_def detect_category_def
  dict_contains_def dict_index_def dict_get_def EXT_TO_CATEGORY_def FORMAT_MAP_def
  normalize_ext_def EXT_ALIASES_def

lemmas sheet_eval = convert_spreadsheet_def read_source_def write_frame_def convert_office_def
  office_argv_def office_fmt_map_def

section \<open>Facts about the router\<close>

lemma caught_not_400:
  "fst (case r of
          (Inl e, w1) \<Rightarrow> (Inl (HTTPException 500 (f e)), w1)
        | (Inr u, w1) \<Rightarrow> (Inr u, w1)) \<noteq> Inl (HTTPException 400 m)"
  by (auto split: prod.splits sum.splits)

lemma dispatch_known:
  assumes "category \<in> set (map fst FORMAT_MAP)"
  shows "fst (dispatch E category i out t w) \<noteq> Inl (HTTPException 400 m)"
proof -
  from assms have "category = ''image'' \<or> category = ''audio'' \<or> category = ''video'' \<or>
      category = ''spreadsheet'' \<or> category = ''document'' \<or>
      category = ''presentation'' \<or> category = ''pdf''"
    by (simp add: FORMAT_MAP_def)
  then show ?thesis
    unfolding dispatch_def Let_def
    by (elim disjE) (simp_all add: caught_not_400)
qed

lemma convert_file_missing:
  assumes "\<not> exists w (joinpath UPLOAD_DIR (file_id req @ suffix (parse_path (filename req))))"
  shows "convert_file E req w = (Inl (HTTPException 404 ''Upload not found''), w)"
  using assms unfolding convert_file_def Let_def by simp

text \<open>The two outcomes of the validation, in the terms in which the code tests it.\<close>

lemma convert_file_rejects:
  assumes "exists w (joinpath UPLOAD_DIR (file_id req @ suffix (parse_path (filename req))))"
    and "detect_category E (filename req) None = Inr category"
    and "normalize_ext E (lstrip_dot (str_lower E (target_format req))) \<notin>
         allowed_targets E category"
  shows "convert_file E req w =
    (Inl (HTTPException 400
       (''Target .'' @ lstrip_dot (str_lower E (target_format req)) @
        '' is not supported for '' @ category)), w)"
  using assms unfolding convert_file_def Let_def by simp

lemma convert_file_accepts:
  assumes "exists w (joinpath UPLOAD_DIR (file_id req @ suffix (parse_path (filename req))))"
    and "detect_category E (filename req) None = Inr category"
    and "normalize_ext E (lstrip_dot (str_lower E (target_format req))) \<in>
         allowed_targets E category"
  shows "convert_file E req w =
     (let target_raw = lstrip_dot (str_lower E (target_format req));
          output_filename = stem (parse_path (filename req)) @ ''.'' @ target_raw;
          output_path = joinpath OUTPUT_DIR (file_id req @ ''_'' @ output_filename)
      in case dispatch E category
                (joinpath UPLOAD_DIR (file_id req @ suffix (parse_path (filename req))))
                output_path (normalize_ext E target_raw) w of
           (Inl e, w1) \<Rightarrow> (Inl e, w1)
         | (Inr u, w1) \<Rightarrow>
             if \<not> exists w1 output_path
             then (Inl (HTTPException 500 ''Conversion produced no output file''), w1)
             else (Inr (FileResponse (str_path output_path) output_filename
                          ''application/octet-stream''), w1))"
  using assms unfolding convert_file_def Let_def by simp

lemma accepted_category_known:
  assumes "t \<in> allowed_targets E category"
  shows "category \<in> set (map fst FORMAT_MAP)"
proof (rule ccontr)
  assume "category \<notin> set (map fst FORMAT_MAP)"
  then have "allowed_targets E category = {}"
    by (rule unknown_allowed_empty)
  with assms show False by simp
qed

lemma convert_file_accepted_not_400:
  assumes "exists w (joinpath UPLOAD_DIR (file_id req @ suffix (parse_path (filename req))))"
    and "detect_category E (filename req) None = Inr category"
    and "normalize_ext E (lstrip_dot (str_lower E (target_format req))) \<in>
         allowed_targets E category"
  shows "fst (convert_file E req w) \<noteq> Inl (HTTPException 400 m)"
proof -
  have known: "category \<in> set (map fst FORMAT_MAP)"
    using assms(3) by (rule accepted_category_known)
  define d where "d = dispatch E category
      (joinpath UPLOAD_DIR (file_id req @ suffix (parse_path (filename req))))
      (joinpath OUTPUT_DIR (file_id req @ ''_'' @ (stem (parse_path (filename req)) @ ''.'' @
         lstrip_dot (str_lower E (target_format req)))))
      (normalize_ext E (lstrip_dot (str_lower E (target_format req)))) w"
  have dn: "fst d \<noteq> Inl (HTTPException 400 m)"
    unfolding d_def using known by (rule dispatch_known)
  show ?thesis
    unfolding convert_file_accepts [OF assms] Let_def d_def [symmetric]
    using dn by (auto split: prod.splits sum.splits)
qed

lemma convert_file_never_unsupported_category:
  "fst (convert_file E req w) \<noteq> Inl (HTTPException 400 (''Unsupported category: '' @ c))"
proof (cases "exists w (joinpath UPLOAD_DIR (file_id req @ suffix (parse_path (filename req))))")
  case False
  then show ?thesis by (simp add: convert_file_missing)
next
  case True
  obtain category where cat: "detect_category E (filename req) None = Inr category"
    using detect_None_total by blast
  show ?thesis
  proof (cases "normalize_ext E (lstrip_dot (str_lower E (target_format req))) \<in>
                allowed_targets E category")
    case False
    then show ?thesis
      using True cat by (simp add: convert_file_rejects)
  next
    case valid: True
    show ?thesis
      using True cat valid by (rule convert_file_accepted_not_400)
  qed
qed

lemma data_has_no_suffix: "suffix (parse_path ''data'') = []"
  by (simp add: path_eval)

lemma data_save_path: "joinpath UPLOAD_DIR ''d1'' = parse_path ''uploads/d1''"
  by (simp add: path_eval)

lemma data_with_csv_hint:
  "detect_category bare_env ''data'' (Some ''text/csv'') = Inr ''spreadsheet''"
  by (simp add: detect_category_def data_has_no_suffix lstrip_dot_def bare_env_lower
      ascii_lower_def dict_contains_def dict_index_def EXT_TO_CATEGORY_def MIME_TO_CATEGORY_def
      startswith_def)

lemma data_without_hint: "detect_category bare_env ''data'' None = Inr ''unknown''"
  by (simp add: detect_category_def data_has_no_suffix lstrip_dot_def bare_env_lower
      ascii_lower_def dict_contains_def EXT_TO_CATEGORY_def)

text \<open>What \<open>upload_file\<close> returns.\<close>

lemma upload_file_response:
  "\<exists>category.
     detect_category E (upload_filename file)
       (Some (detect_mime E file
          (joinpath UPLOAD_DIR (fid @ suffix (parse_path (upload_filename file))))
          (write_file (joinpath UPLOAD_DIR (fid @ suffix (parse_path (upload_filename file))))
             (file_data file) w))) = Inr category \<and>
     upload_file E fid file w =
       (Inr (UploadResponse fid (upload_filename file) category
               (detect_mime E file
                  (joinpath UPLOAD_DIR (fid @ suffix (parse_path (upload_filename file))))
                  (write_file
                     (joinpath UPLOAD_DIR (fid @ suffix (parse_path (upload_filename file))))
                     (file_data file) w))
               (suggestions E category
                  (lstrip_dot (suffix (parse_path (upload_filename file)))))),
        write_file (joinpath UPLOAD_DIR (fid @ suffix (parse_path (upload_filename file))))
          (file_data file) w)"
proof -
  define mime where "mime = detect_mime E file
          (joinpath UPLOAD_DIR (fid @ suffix (parse_path (upload_filename file))))
          (write_file (joinpath UPLOAD_DIR (fid @ suffix (parse_path (upload_filename file))))
             (file_data file) w)"
  have "\<exists>c. detect_category E (upload_filename file) (Some mime) = Inr c"
    unfolding detect_category_def Let_def dict_contains_def dict_index_def
    by (auto split: option.splits)
  then obtain c where c: "detect_category E (upload_filename file) (Some mime) = Inr c" ..
  have "upload_file E fid file w =
       (Inr (UploadResponse fid (upload_filename file) c mime
               (suggestions E c (lstrip_dot (suffix (parse_path (upload_filename file)))))),
        write_file (joinpath UPLOAD_DIR (fid @ suffix (parse_path (upload_filename file))))
          (file_data file) w)"
    unfolding upload_file_def Let_def mime_def [symmetric] c by simp
  with c show ?thesis
    unfolding mime_def by blast
qed

lemma normalize_lstrip:
  assumes comm: "\<And>s. lstrip_dot (str_lower E s) = str_lower E (lstrip_dot s)"
  shows "normalize_ext E (lstrip_dot x) = normalize_ext E x"
  by (simp add: normalize_ext_def Let_def comm [symmetric] lstrip_dot_idem)

section \<open>Facts about the office adapter\<close>

lemma office_format_same: "dict_get office_fmt_map target target = target"
  by (simp add: dict_get_def office_fmt_map_def)

lemma office_general:
  assumes "subprocess_run E (office_argv src dst target) 120 (files w) = Completed 0 err fs"
  shows "convert_office E src dst target w =
     (let expected = joinpath (parent dst) (stem src @ ''.'' @ target);
          tr = trace w @ [Call ''convert_office'', Exec (office_argv src dst target)]
      in if fs expected \<noteq> None \<and> expected \<noteq> dst
         then (Inr (), \<lparr>files = fs(dst := fs expected, expected := None),
                         trace = tr @ [Rename expected dst]\<rparr>)
         else (Inr (), \<lparr>files = fs, trace = tr\<rparr>))"
proof -
  have r: "run E (office_argv src dst target) 120 (logged (Call ''convert_office'') w) =
     (Inr (0, err), \<lparr>files = fs, trace = trace w @ [Call ''convert_office'', Exec (office_argv src dst target)]\<rparr>)"
    using assms by (simp add: run_completed)
  show ?thesis
    unfolding convert_office_def office_format_same Let_def r
    by (simp add: exists_def rename_def logged_def)
qed

lemma parse_simple: "parse_path ''notes.pdf'' = Path [] [''notes.pdf'']"
  by (simp add: parse_path_def root_of_def startswith_def)

lemma stem_notes: "name src = ''notes.docx'' \<Longrightarrow> stem src = ''notes''"
  by (simp add: stem_def)

lemma notes_expected:
  assumes "name src = ''notes.docx''" "name dst = aid @ ''_notes.pdf''"
  shows "joinpath (parent dst) (stem src @ ''.'' @ ''pdf'') = Path (anchor dst) (butlast (parts dst) @ [''notes.pdf''])"
    and "joinpath (parent dst) (stem src @ ''.'' @ ''pdf'') \<noteq> dst"
proof -
  have ne: "parts dst \<noteq> []" using assms(2) by (auto simp: name_def split: if_splits)
  show a: "joinpath (parent dst) (stem src @ ''.'' @ ''pdf'') = Path (anchor dst) (butlast (parts dst) @ [''notes.pdf''])"
    using ne by (simp add: stem_notes[OF assms(1)] joinpath_def parse_simple parent_def)
  have "last (parts dst) = aid @ ''_notes.pdf''" using assms(2) ne by (simp add: name_def)
  moreover have "length (aid @ ''_notes.pdf'') \<noteq> length ''notes.pdf''" by simp
  ultimately have "last (parts dst) \<noteq> ''notes.pdf''" by auto
  then have "parts dst \<noteq> butlast (parts dst) @ [''notes.pdf'']"
    using ne by (metis last_snoc)
  then show "joinpath (parent dst) (stem src @ ''.'' @ ''pdf'') \<noteq> dst"
    unfolding a by (cases dst) auto
qed

section \<open>Facts about the PDF renderers\<close>

lemma take_candidate_none:
  "\<not> list_ex (exists w) cs \<Longrightarrow> take_candidate cs dst w = (False, w)"
  by (induction cs) auto

lemma take_candidate_found:
  "list_ex (exists w) cs \<Longrightarrow>
   \<exists>w2. take_candidate cs dst w = (True, w2) \<and> exists w2 dst \<and>
        (trace w2 = trace w \<or> (\<exists>c. trace w2 = trace w @ [Rename c dst]))"
  by (induction cs) (auto simp: rename_def exists_def logged_def)

lemma save_trace:
  "trace (snd (save E img dst fmt q w)) = trace w @ [Lib ''Image.save'']"
  by (simp add: save_def Let_def write_file_def split: sum.splits)

lemma try_block_trace:
  "\<exists>r. trace (snd (pdfium_try_block E pdf dst t w)) = trace w @ r"
proof -
  have s: "\<And>img fmt q w0. \<exists>r. trace (snd (save E img dst fmt q w0)) = trace w0 @ r"
    by (simp add: save_trace)
  show ?thesis
    unfolding pdfium_try_block_def Let_def
    by (auto split: sum.splits prod.splits simp: save_def write_file_def Let_def)
qed

lemma pdfium_snd:
  assumes "HAS_PDFIUM E" "PdfDocument E (str_path src) (files w) = Inr pdf"
  shows "snd (convert_pdf_with_pdfium E src dst t w) =
     logged (Lib ''pdf.close'')
       (snd (pdfium_try_block E pdf dst t
          (logged (Lib ''pdfium.PdfDocument'') (logged (Call ''convert_pdf_with_pdfium'') w))))"
  using assms
  by (simp add: convert_pdf_with_pdfium_def Let_def split: prod.splits sum.splits)

lemma pdfium_trace:
  "\<exists>r. trace (snd (convert_pdf_with_pdfium E src dst t w)) =
        trace w @ Call ''convert_pdf_with_pdfium'' # r"
proof (cases "HAS_PDFIUM E")
  case False
  then show ?thesis by (simp add: convert_pdf_with_pdfium_def Let_def)
next
  case True
  show ?thesis
  proof (cases "PdfDocument E (str_path src) (files w)")
    case (Inl e)
    then show ?thesis using True by (simp add: convert_pdf_with_pdfium_def Let_def)
  next
    case (Inr pdf)
    obtain r where "trace (snd (pdfium_try_block E pdf dst t
          (logged (Lib ''pdfium.PdfDocument'') (logged (Call ''convert_pdf_with_pdfium'') w)))) =
        trace (logged (Lib ''pdfium.PdfDocument'') (logged (Call ''convert_pdf_with_pdfium'') w)) @ r"
      using try_block_trace by blast
    then show ?thesis
      by (simp add: pdfium_snd [OF True Inr])
  qed
qed

lemma poppler_falls:
  fixes E src dst target w
  defines "argv \<equiv> poppler_argv src dst target"
  defines "outcome \<equiv> subprocess_run E argv 60 (files w)"
  defines "w1 \<equiv> \<lparr>files = files_after outcome,
                  trace = trace w @ [Call ''convert_pdf_with_poppler'', Exec argv]\<rparr>"
  assumes "tool_absent outcome \<or> (\<exists>rc. exit_code outcome = Some rc \<and> rc \<noteq> 0) \<or>
     (exit_code outcome = Some 0 \<and>
      \<not> list_ex (\<lambda>c. files_after outcome c \<noteq> None) (poppler_candidates dst target))"
  shows "convert_pdf_with_poppler E src dst target w = (Inr False, w1)"
proof (cases outcome)
  case (Raised e fs)
  with assms(4) obtain m where "e = FileNotFoundError m"
    by (cases e) auto
  with Raised show ?thesis
    unfolding convert_pdf_with_poppler_def Let_def run_eq w1_def
    by (simp add: outcome_def [symmetric] argv_def [symmetric])
next
  case (Completed rc err fs)
  show ?thesis
  proof (cases "rc = 0")
    case False
    with Completed show ?thesis
      unfolding convert_pdf_with_poppler_def Let_def run_eq w1_def
      by (simp add: outcome_def [symmetric] argv_def [symmetric])
  next
    case True
    with assms(4) Completed
    have "\<not> list_ex (\<lambda>c. fs c \<noteq> None) (poppler_candidates dst target)" by simp
    then have "\<not> list_ex (exists \<lparr>files = fs, trace = trace w @ [Call ''convert_pdf_with_poppler'', Exec argv]\<rparr>)
                 (poppler_candidates dst target)"
      by (simp add: exists_fun)
    then have "take_candidate (poppler_candidates dst target) dst
        \<lparr>files = fs, trace = trace w @ [Call ''convert_pdf_with_poppler'', Exec argv]\<rparr> =
        (False, \<lparr>files = fs, trace = trace w @ [Call ''convert_pdf_with_poppler'', Exec argv]\<rparr>)"
      by (rule take_candidate_none)
    with Completed True show ?thesis
      unfolding convert_pdf_with_poppler_def Let_def run_eq w1_def
      by (simp add: outcome_def [symmetric] argv_def [symmetric])
  qed
qed

lemma poppler_not_falls:
  fixes E src dst target w
  defines "argv \<equiv> poppler_argv src dst target"
  defines "outcome \<equiv> subprocess_run E argv 60 (files w)"
  defines "w1 \<equiv> \<lparr>files = files_after outcome,
                  trace = trace w @ [Call ''convert_pdf_with_poppler'', Exec argv]\<rparr>"
  assumes "\<not> (tool_absent outcome \<or> (\<exists>rc. exit_code outcome = Some rc \<and> rc \<noteq> 0) \<or>
     (exit_code outcome = Some 0 \<and>
      \<not> list_ex (\<lambda>c. files_after outcome c \<noteq> None) (poppler_candidates dst target)))"
  shows "(exit_code outcome = None \<and>
          (\<exists>e fs. outcome = Raised e fs \<and>
                  convert_pdf_with_poppler E src dst target w = (Inl e, w1))) \<or>
         (exit_code outcome = Some 0 \<and>
          (\<exists>w2. convert_pdf_with_poppler E src dst target w = (Inr True, w2) \<and>
                exists w2 dst \<and>
                (trace w2 = trace w1 \<or> (\<exists>c. trace w2 = trace w1 @ [Rename c dst]))))"
proof (cases outcome)
  case (Raised e fs)
  with assms(4) have "\<And>m. e \<noteq> FileNotFoundError m"
    by auto
  with Raised have "convert_pdf_with_poppler E src dst target w = (Inl e, w1)"
    unfolding convert_pdf_with_poppler_def Let_def run_eq w1_def
    by (cases e) (auto simp: outcome_def [symmetric] argv_def [symmetric])
  with Raised show ?thesis by simp
next
  case (Completed rc err fs)
  with assms(4) have rc: "rc = 0"
    and ex: "list_ex (\<lambda>c. fs c \<noteq> None) (poppler_candidates dst target)"
    by auto
  from ex have "list_ex (exists w1) (poppler_candidates dst target)"
    using Completed by (simp add: exists_fun w1_def)
  then obtain w2 where t: "take_candidate (poppler_candidates dst target) dst w1 = (True, w2)"
    and ed: "exists w2 dst"
    and tr: "trace w2 = trace w1 \<or> (\<exists>c. trace w2 = trace w1 @ [Rename c dst])"
    using take_candidate_found by blast
  have "convert_pdf_with_poppler E src dst target w = (Inr True, w2)"
    using Completed rc t
    unfolding convert_pdf_with_poppler_def Let_def run_eq w1_def
    by (simp add: outcome_def [symmetric] argv_def [symmetric])
  with tr ed Completed rc show ?thesis by auto
qed

lemma save_ok_writes:
  "save E img dst fmt q w = (Inr u, w2) \<Longrightarrow> files w2 dst \<noteq> None"
  by (auto simp: save_def Let_def write_file_def split: sum.splits)

lemma try_block_true:
  assumes "pdfium_try_block E pdf dst t w = (Inr True, w2)"
  shows "files w2 dst \<noteq> None"
proof -
  have "\<exists>img fmt q u. save E img dst fmt q (logged (Lib ''page.render'') w) = (Inr u, w2)"
    using assms unfolding pdfium_try_block_def Let_def
    by (auto split: if_splits sum.splits prod.splits)
  then show ?thesis
    using save_ok_writes by blast
qed

lemma pdfium_true_output:
  assumes "fst (convert_pdf_with_pdfium E src dst t w)"
  shows "exists (snd (convert_pdf_with_pdfium E src dst t w)) dst"
proof -
  from assms have has: "HAS_PDFIUM E"
    by (auto simp: convert_pdf_with_pdfium_def Let_def split: if_splits)
  from assms has obtain pdf where op: "PdfDocument E (str_path src) (files w) = Inr pdf"
    by (cases "PdfDocument E (str_path src) (files w)")
       (auto simp: convert_pdf_with_pdfium_def Let_def)
  define w1 where "w1 = logged (Lib ''pdfium.PdfDocument'') (logged (Call ''convert_pdf_with_pdfium'') w)"
  have fw: "files w1 = files w"
    by (simp add: w1_def)
  obtain r w2 where tb: "pdfium_try_block E pdf dst t w1 = (r, w2)"
    by (cases "pdfium_try_block E pdf dst t w1") auto
  have res: "convert_pdf_with_pdfium E src dst t w =
      (case r of Inl e \<Rightarrow> (False, logged (Lib ''pdf.close'') w2)
               | Inr ok \<Rightarrow> (ok, logged (Lib ''pdf.close'') w2))"
    using has op tb unfolding convert_pdf_with_pdfium_def Let_def w1_def [symmetric] fw
    by (simp split: sum.splits)
  with assms have "r = Inr True"
    by (cases r) auto
  with tb have "files w2 dst \<noteq> None"
    using try_block_true by blast
  then show ?thesis
    using res \<open>r = Inr True\<close> by (simp add: exists_def)
qed

lemma sublist_names:
  "sublist ''poppler'' no_backend_message"
  "sublist ''pdftoppm'' no_backend_message"
  "sublist ''pypdfium2'' no_backend_message"
  unfolding sublist_def no_backend_message_def
  by (rule exI [of _ "''No PDF-to-image backend available. Install ''"], simp,
      rule exI [of _ "''No PDF-to-image backend available. Install poppler (''"], simp,
      rule exI [of _ "''No PDF-to-image backend available. Install poppler (pdftoppm) or ''"], simp)




text \<open>The chain for the targets png and jpg, in every outcome of the run of pdftoppm.\<close>

lemma fallback_chain:
  fixes E src dst target w
  defines "argv \<equiv> poppler_argv src dst target"
  defines "outcome \<equiv> subprocess_run E argv 60 (files w)"
  defines "w1 \<equiv> \<lparr>files = files_after outcome,
                  trace = trace w @ [Call ''convert_pdf'', Call ''convert_pdf_with_poppler'',
                                     Exec argv]\<rparr>"
  defines "falls_through \<equiv>
     tool_absent outcome \<or> (\<exists>rc. exit_code outcome = Some rc \<and> rc \<noteq> 0) \<or>
     (exit_code outcome = Some 0 \<and>
      \<not> list_ex (\<lambda>c. files_after outcome c \<noteq> None) (poppler_candidates dst target))"
  defines "secondary \<equiv> convert_pdf_with_pdfium E src dst target w1"
  assumes png_or_jpg: "target = ''png'' \<or> target = ''jpg''"
  shows "(\<exists>rest. trace (snd (convert_pdf E src dst target w)) = trace w1 @ rest \<and>
                (Call ''convert_pdf_with_pdfium'' \<in> set rest \<longleftrightarrow> falls_through)) \<and>
         (falls_through \<and> fst secondary \<longrightarrow>
            convert_pdf E src dst target w = (Inr (), snd secondary) \<and>
            exists (snd secondary) dst) \<and>
         (falls_through \<and> \<not> fst secondary \<longrightarrow>
            convert_pdf E src dst target w =
              (Inl (RuntimeError no_backend_message), snd secondary)) \<and>
         (\<not> falls_through \<and> exit_code outcome = None \<longrightarrow>
            (\<exists>e fs. outcome = Raised e fs \<and>
                    convert_pdf E src dst target w = (Inl e, w1))) \<and>
         (\<not> falls_through \<and> exit_code outcome \<noteq> None \<longrightarrow>
            fst (convert_pdf E src dst target w) = Inr () \<and>
            exists (snd (convert_pdf E src dst target w)) dst)"
proof -
  define w0 where "w0 = logged (Call ''convert_pdf'') w"
  have fw0: "files w0 = files w" and tw0: "trace w0 = trace w @ [Call ''convert_pdf'']"
    by (simp_all add: w0_def)
  have w1': "w1 = \<lparr>files = files_after (subprocess_run E (poppler_argv src dst target) 60 (files w0)),
      trace = trace w0 @ [Call ''convert_pdf_with_poppler'', Exec (poppler_argv src dst target)]\<rparr>"
    by (simp add: w1_def outcome_def argv_def fw0 tw0)
  have body: "convert_pdf E src dst target w =
      (case convert_pdf_with_poppler E src dst target w0 of
         (Inl e, w') \<Rightarrow> (Inl e, w')
       | (Inr True, w') \<Rightarrow> (Inr (), w')
       | (Inr False, w') \<Rightarrow>
           (case convert_pdf_with_pdfium E src dst target w' of
              (True, w2) \<Rightarrow> (Inr (), w2)
            | (False, w2) \<Rightarrow> (Inl (RuntimeError no_backend_message), w2)))"
    using png_or_jpg unfolding convert_pdf_def Let_def w0_def by auto
  show ?thesis
  proof (cases falls_through)
    case True
    then have p: "convert_pdf_with_poppler E src dst target w0 = (Inr False, w1)"
      unfolding falls_through_def outcome_def argv_def w1' fw0 [symmetric]
      by (rule poppler_falls)
    have res: "convert_pdf E src dst target w =
        (if fst secondary then (Inr (), snd secondary)
         else (Inl (RuntimeError no_backend_message), snd secondary))"
      unfolding body p secondary_def by (simp split: prod.splits bool.splits)
    obtain r where "trace (snd secondary) = trace w1 @ Call ''convert_pdf_with_pdfium'' # r"
      unfolding secondary_def using pdfium_trace by blast
    then have "trace (snd (convert_pdf E src dst target w)) =
        trace w1 @ (Call ''convert_pdf_with_pdfium'' # r)"
      unfolding res by simp
    then have first: "\<exists>rest. trace (snd (convert_pdf E src dst target w)) = trace w1 @ rest \<and>
                (Call ''convert_pdf_with_pdfium'' \<in> set rest \<longleftrightarrow> falls_through)"
      using True by (intro exI [of _ "Call ''convert_pdf_with_pdfium'' # r"]) simp
    have out: "fst secondary \<Longrightarrow> exists (snd secondary) dst"
      unfolding secondary_def by (rule pdfium_true_output)
    show ?thesis
      using first True res out by simp
  next
    case False
    then have cases2: "(exit_code outcome = None \<and>
          (\<exists>e fs. outcome = Raised e fs \<and>
                  convert_pdf_with_poppler E src dst target w0 = (Inl e, w1))) \<or>
         (exit_code outcome = Some 0 \<and>
          (\<exists>w2. convert_pdf_with_poppler E src dst target w0 = (Inr True, w2) \<and>
                exists w2 dst \<and>
                (trace w2 = trace w1 \<or> (\<exists>c. trace w2 = trace w1 @ [Rename c dst]))))"
      unfolding falls_through_def outcome_def argv_def w1' fw0 [symmetric]
      by (rule poppler_not_falls)
    show ?thesis
    proof (rule disjE [OF cases2])
      assume a: "exit_code outcome = None \<and>
          (\<exists>e fs. outcome = Raised e fs \<and>
                  convert_pdf_with_poppler E src dst target w0 = (Inl e, w1))"
      then obtain e fs where o: "outcome = Raised e fs"
        and p: "convert_pdf_with_poppler E src dst target w0 = (Inl e, w1)"
        by blast
      have res: "convert_pdf E src dst target w = (Inl e, w1)"
        unfolding body p by simp
      then have "trace (snd (convert_pdf E src dst target w)) = trace w1 @ []"
        by simp
      then have first: "\<exists>rest. trace (snd (convert_pdf E src dst target w)) = trace w1 @ rest \<and>
                (Call ''convert_pdf_with_pdfium'' \<in> set rest \<longleftrightarrow> falls_through)"
        using False by (intro exI [of _ "[]"]) simp
      have "\<exists>e fs. outcome = Raised e fs \<and> convert_pdf E src dst target w = (Inl e, w1)"
        using o res by blast
      then show ?thesis
        using first False a by simp
    next
      assume b: "exit_code outcome = Some 0 \<and>
          (\<exists>w2. convert_pdf_with_poppler E src dst target w0 = (Inr True, w2) \<and>
                exists w2 dst \<and>
                (trace w2 = trace w1 \<or> (\<exists>c. trace w2 = trace w1 @ [Rename c dst])))"
      then obtain w2 where p: "convert_pdf_with_poppler E src dst target w0 = (Inr True, w2)"
        and ed: "exists w2 dst"
        and tr: "trace w2 = trace w1 \<or> (\<exists>c. trace w2 = trace w1 @ [Rename c dst])"
        by blast
      have res: "convert_pdf E src dst target w = (Inr (), w2)"
        unfolding body p by simp
      from tr have "\<exists>rest. trace w2 = trace w1 @ rest \<and>
                Call ''convert_pdf_with_pdfium'' \<notin> set rest"
      proof
        assume "trace w2 = trace w1"
        then show ?thesis by (intro exI [of _ "[]"]) simp
      next
        assume "\<exists>c. trace w2 = trace w1 @ [Rename c dst]"
        then obtain c where "trace w2 = trace w1 @ [Rename c dst]" ..
        then show ?thesis by (intro exI [of _ "[Rename c dst]"]) simp
      qed
      then have first: "\<exists>rest. trace (snd (convert_pdf E src dst target w)) = trace w1 @ rest \<and>
                (Call ''convert_pdf_with_pdfium'' \<in> set rest \<longleftrightarrow> falls_through)"
        using False unfolding res by simp
      show ?thesis
        using first False b ed unfolding res by simp
    qed
  qed
qed

text \<open>The sample environments keep the ASCII tables of \<open>bare_env\<close>.\<close>

section \<open>Facts about the sample environments\<close>

text \<open>
  The case mappings of the sample environments have the three properties that the
  theorems ask of \<open>str.lower\<close>.
\<close>

lemma sample_lower:
  "str_lower pdfium_env = ascii_lower" "str_lower one_page_env = ascii_lower"
  "str_lower timeout_env = ascii_lower" "str_lower pandas_env = ascii_lower"
  "str_lower office_env = ascii_lower"
  by (simp_all add: pdfium_env_def one_page_env_def timeout_env_def pandas_env_def
      office_env_def bare_env_def)

lemma bare_env_laws:
  "str_lower bare_env (str_lower bare_env s) = str_lower bare_env s"
  "lstrip_dot (str_lower bare_env s) = str_lower bare_env (lstrip_dot s)"
  "str_lower bare_env s = ascii_lower s"
  by (simp_all add: bare_env_lower ascii_lower_idem lstrip_dot_ascii_lower)

lemma ascii_lower_laws:
  assumes "str_lower E = ascii_lower"
  shows "str_lower E (str_lower E s) = str_lower E s"
    and "lstrip_dot (str_lower E s) = str_lower E (lstrip_dot s)"
    and "str_lower E s = ascii_lower s"
  by (simp_all add: assms ascii_lower_idem lstrip_dot_ascii_lower)

lemma spreadsheet_suggestions:
  "suggestions bare_env ''spreadsheet'' [] = [''csv'', ''xlsx'', ''xls'', ''pdf'']"
  by (simp add: suggestions_def Let_def row_cases normalize_literals [OF bare_env_laws(3)])

text \<open>The mapping that knows the Kelvin sign has them too.\<close>

lemma ascii_lower_char_other:
  "(ascii_lower_char c = CHR 0xE2) = (c = CHR 0xE2)"
  "(ascii_lower_char c = CHR 0x84) = (c = CHR 0x84)"
  "(ascii_lower_char c = CHR 0xAA) = (c = CHR 0xAA)"
  unfolding ascii_lower_char_def letters by auto

lemma kelvin_lower_plain:
  assumes "\<not> (a = CHR 0xE2 \<and> take 2 s = [CHR 0x84, CHR 0xAA])"
  shows "kelvin_lower (a # s) = ascii_lower_char a # kelvin_lower s"
  unfolding kelvin_lower.simps using assms by (rule if_not_P)

lemma kelvin_lower_sign:
  assumes "a = CHR 0xE2 \<and> take 2 s = [CHR 0x84, CHR 0xAA]"
  shows "kelvin_lower (a # s) = CHR ''k'' # kelvin_lower (drop 2 s)"
  unfolding kelvin_lower.simps using assms by (rule if_P)

lemma kelvin_lower_first:
  "kelvin_lower (a # s) = CHR ''k'' # kelvin_lower (drop 2 s) \<or>
   kelvin_lower (a # s) = ascii_lower_char a # kelvin_lower s"
  using kelvin_lower_plain [of a s] kelvin_lower_sign [of a s] by blast

lemma kelvin_lower_ascii: "is_ascii s \<Longrightarrow> kelvin_lower s = ascii_lower s"
proof (induction s)
  case Nil
  then show ?case by (simp add: ascii_lower_def)
next
  case (Cons a s)
  then have "\<not> digit7 a" and rest: "kelvin_lower s = ascii_lower s"
    by (simp_all add: is_ascii_def)
  then have "a \<noteq> CHR 0xE2"
    by auto
  then have "kelvin_lower (a # s) = ascii_lower_char a # kelvin_lower s"
    by (intro kelvin_lower_plain) simp
  then show ?case
    by (simp add: rest ascii_lower_def)
qed

lemma kelvin_lower_comm: "lstrip_dot (kelvin_lower s) = kelvin_lower (lstrip_dot s)"
proof (induction s)
  case Nil
  then show ?case by (simp add: lstrip_dot_def)
next
  case (Cons a s)
  show ?case
  proof (cases "a = CHR ''.''")
    case True
    have p: "kelvin_lower (a # s) = ascii_lower_char a # kelvin_lower s"
      by (rule kelvin_lower_plain) (simp add: True)
    have d: "ascii_lower_char a = CHR ''.''"
      by (simp add: ascii_lower_char_dot True)
    show ?thesis
      unfolding p d using Cons True by (simp add: lstrip_dot_def)
  next
    case False
    then have "ascii_lower_char a \<noteq> CHR ''.''"
      by (simp add: ascii_lower_char_dot)
    then have "lstrip_dot (kelvin_lower (a # s)) = kelvin_lower (a # s)"
      using kelvin_lower_first [of a s] by (auto simp: lstrip_dot_def)
    then show ?thesis
      using False by (simp add: lstrip_dot_def)
  qed
qed

lemma kelvin_lower_take2:
  assumes "take 2 (kelvin_lower s) = [CHR 0x84, CHR 0xAA]"
  shows "take 2 s = [CHR 0x84, CHR 0xAA]"
proof (cases s)
  case Nil
  with assms show ?thesis by simp
next
  case (Cons b s1)
  from assms have "kelvin_lower (b # s1) \<noteq> CHR ''k'' # kelvin_lower (drop 2 s1)"
    unfolding Cons by (auto simp: take_Suc_conv_app_nth numeral_2_eq_2 take_Suc_Cons)
  then have p: "kelvin_lower (b # s1) = ascii_lower_char b # kelvin_lower s1"
    using kelvin_lower_first [of b s1] by blast
  from assms have b: "b = CHR 0x84" and t1: "take 1 (kelvin_lower s1) = [CHR 0xAA]"
    unfolding Cons p by (simp_all add: numeral_2_eq_2 ascii_lower_char_other)
  show ?thesis
  proof (cases s1)
    case Nil
    with t1 show ?thesis by simp
  next
    case c: (Cons c s2)
    from t1 have "kelvin_lower (c # s2) \<noteq> CHR ''k'' # kelvin_lower (drop 2 s2)"
      unfolding c by auto
    then have "kelvin_lower (c # s2) = ascii_lower_char c # kelvin_lower s2"
      using kelvin_lower_first [of c s2] by blast
    with t1 have "c = CHR 0xAA"
      unfolding c by (simp add: ascii_lower_char_other)
    then show ?thesis
      unfolding Cons c b by (simp add: numeral_2_eq_2)
  qed
qed

lemma kelvin_lower_idem: "kelvin_lower (kelvin_lower s) = kelvin_lower s"
proof (induction s rule: kelvin_lower.induct)
  case 1
  then show ?case by simp
next
  case (2 a s)
  show ?case
  proof (cases "a = CHR 0xE2 \<and> take 2 s = [CHR 0x84, CHR 0xAA]")
    case True
    have k: "\<not> (CHR ''k'' = CHR 0xE2 \<and>
                take 2 (kelvin_lower (drop 2 s)) = [CHR 0x84, CHR 0xAA])"
      by simp
    have lk: "ascii_lower_char CHR ''k'' = CHR ''k''"
      by (simp add: ascii_lower_char_def letters)
    show ?thesis
      unfolding kelvin_lower_sign [OF True] kelvin_lower_plain [OF k] lk 2(1) [OF True] ..
  next
    case False
    have no: "\<not> (ascii_lower_char a = CHR 0xE2 \<and>
                 take 2 (kelvin_lower s) = [CHR 0x84, CHR 0xAA])"
    proof
      assume h: "ascii_lower_char a = CHR 0xE2 \<and>
                 take 2 (kelvin_lower s) = [CHR 0x84, CHR 0xAA]"
      then have "a = CHR 0xE2"
        by (simp add: ascii_lower_char_other)
      moreover from h have "take 2 s = [CHR 0x84, CHR 0xAA]"
        by (simp add: kelvin_lower_take2)
      ultimately show False
        using False by blast
    qed
    show ?thesis
      unfolding kelvin_lower_plain [OF False] kelvin_lower_plain [OF no]
        ascii_lower_char_idem 2(2) [OF False] ..
  qed
qed

lemma kelvin_env_laws:
  "str_lower kelvin_env (str_lower kelvin_env s) = str_lower kelvin_env s"
  "lstrip_dot (str_lower kelvin_env s) = str_lower kelvin_env (lstrip_dot s)"
  "is_ascii s \<Longrightarrow> str_lower kelvin_env s = ascii_lower s"
  by (simp_all add: kelvin_env_def kelvin_lower_idem kelvin_lower_comm kelvin_lower_ascii)

text \<open>
  So a file name whose extension is written with the Kelvin sign is a video, as in the
  program.
\<close>

lemma kelvin_sign_is_video:
  "detect_category kelvin_env (''clip.M'' @ [CHR 0xE2, CHR 0x84, CHR 0xAA] @ ''V'') None =
     Inr ''video''"
  by (simp add: router_eval path_eval string_eval kelvin_env_def)

section \<open>The claims\<close>




text \<open>
  C2, as stated, fails where the run of pdftoppm raises another exception than
  \<open>FileNotFoundError\<close>: on a timeout no candidate file is produced and neither backend
  succeeds, yet the Secondary Renderer, which would succeed, is not tried, and the failure
  is the timeout, not the message naming both backends.
\<close>

theorem pdftoppm_timeout_ends_chain:
  "fst (convert_pdf timeout_env (parse_path ''uploads/f1.pdf'')
          (parse_path ''outputs/f1_doc.png'') ''png'' (stored ''uploads/f1.pdf'' ''%PDF'')) =
     Inl (TimeoutExpired ''timed out after 60 seconds'') \<and>
   fst (convert_pdf timeout_env (parse_path ''uploads/f1.pdf'')
          (parse_path ''outputs/f1_doc.png'') ''png'' (stored ''uploads/f1.pdf'' ''%PDF'')) \<noteq>
     Inl (RuntimeError no_backend_message) \<and>
   \<not> list_ex
       (exists (snd (convert_pdf timeout_env (parse_path ''uploads/f1.pdf'')
          (parse_path ''outputs/f1_doc.png'') ''png'' (stored ''uploads/f1.pdf'' ''%PDF''))))
       (poppler_candidates (parse_path ''outputs/f1_doc.png'') ''png'') \<and>
   Call ''convert_pdf_with_pdfium'' \<notin>
     set (trace (snd (convert_pdf timeout_env (parse_path ''uploads/f1.pdf'')
            (parse_path ''outputs/f1_doc.png'') ''png'' (stored ''uploads/f1.pdf'' ''%PDF'')))) \<and>
   fst (convert_pdf_with_pdfium timeout_env (parse_path ''uploads/f1.pdf'')
          (parse_path ''outputs/f1_doc.png'') ''png'' (stored ''uploads/f1.pdf'' ''%PDF''))"
  by (simp add: pdf_eval world_eval path_eval timeout_env_def one_page_env_def bare_env_def)

text \<open>
  C2, amended. For a PDF conversion with target png or jpg, the trace starts with the
  call of the Primary Renderer and the run of pdftoppm. The Secondary Renderer is called
  if and only if pdftoppm is absent (\<open>FileNotFoundError\<close>), exits non-zero, or exits zero
  and leaves no candidate file. When it is called and returns \<open>True\<close>, the conversion
  returns normally in the world the Secondary Renderer left, with the destination
  written; when it returns \<open>False\<close>, the conversion raises the one message that names
  poppler, pdftoppm and pypdfium2. When the run of pdftoppm raises another exception (a
  timeout), that exception is the outcome; when pdftoppm exits zero and a candidate
  exists, the conversion returns normally with the destination in place.
\<close>

theorem pdf_image_fallback_chain:
  fixes E src dst target w
  defines "argv \<equiv> poppler_argv src dst target"
  defines "outcome \<equiv> subprocess_run E argv 60 (files w)"
  defines "w1 \<equiv> \<lparr>files = files_after outcome,
                  trace = trace w @ [Call ''convert_pdf'', Call ''convert_pdf_with_poppler'',
                                     Exec argv]\<rparr>"
  defines "falls_through \<equiv>
     tool_absent outcome \<or> (\<exists>rc. exit_code outcome = Some rc \<and> rc \<noteq> 0) \<or>
     (exit_code outcome = Some 0 \<and>
      \<not> list_ex (\<lambda>c. files_after outcome c \<noteq> None) (poppler_candidates dst target))"
  defines "secondary \<equiv> convert_pdf_with_pdfium E src dst target w1"
  assumes png_or_jpg: "target = ''png'' \<or> target = ''jpg''"
  shows "((\<exists>rest. trace (snd (convert_pdf E src dst target w)) = trace w1 @ rest \<and>
                (Call ''convert_pdf_with_pdfium'' \<in> set rest \<longleftrightarrow> falls_through)) \<and>
         (falls_through \<and> fst secondary \<longrightarrow>
            convert_pdf E src dst target w = (Inr (), snd secondary) \<and>
            exists (snd secondary) dst) \<and>
         (falls_through \<and> \<not> fst secondary \<longrightarrow>
            convert_pdf E src dst target w =
              (Inl (RuntimeError no_backend_message), snd secondary)) \<and>
         (\<not> falls_through \<and> exit_code outcome = None \<longrightarrow>
            (\<exists>e fs. outcome = Raised e fs \<and>
                    convert_pdf E src dst target w = (Inl e, w1))) \<and>
         (\<not> falls_through \<and> exit_code outcome \<noteq> None \<longrightarrow>
            fst (convert_pdf E src dst target w) = Inr () \<and>
            exists (snd (convert_pdf E src dst target w)) dst)) \<and>
         sublist ''poppler'' no_backend_message \<and>
         sublist ''pdftoppm'' no_backend_message \<and>
         sublist ''pypdfium2'' no_backend_message"
proof -
  have chain: "(\<exists>rest. trace (snd (convert_pdf E src dst target w)) = trace w1 @ rest \<and>
                (Call ''convert_pdf_with_pdfium'' \<in> set rest \<longleftrightarrow> falls_through)) \<and>
         (falls_through \<and> fst secondary \<longrightarrow>
            convert_pdf E src dst target w = (Inr (), snd secondary) \<and>
            exists (snd secondary) dst) \<and>
         (falls_through \<and> \<not> fst secondary \<longrightarrow>
            convert_pdf E src dst target w =
              (Inl (RuntimeError no_backend_message), snd secondary)) \<and>
         (\<not> falls_through \<and> exit_code outcome = None \<longrightarrow>
            (\<exists>e fs. outcome = Raised e fs \<and>
                    convert_pdf E src dst target w = (Inl e, w1))) \<and>
         (\<not> falls_through \<and> exit_code outcome \<noteq> None \<longrightarrow>
            fst (convert_pdf E src dst target w) = Inr () \<and>
            exists (snd (convert_pdf E src dst target w)) dst)"
    unfolding secondary_def falls_through_def w1_def outcome_def argv_def
    by (rule fallback_chain [OF png_or_jpg])
  show ?thesis
    by (rule conjI [OF chain]) (intro conjI sublist_names)
qed

text \<open>C2, amended, at a PDF of one page with pdftoppm absent and pypdfium2 installed.\<close>

theorem pdf_image_fallback_chain_witness:
  "(''jpg'' = ''png'' \<or> ''jpg'' = ''jpg'') \<and>
   tool_absent (subprocess_run one_page_env
      (poppler_argv (parse_path ''uploads/f1.pdf'') (parse_path ''outputs/f1_doc.jpg'') ''jpg'')
      60 (files (stored ''uploads/f1.pdf'' ''%PDF''))) \<and>
   fst (convert_pdf one_page_env (parse_path ''uploads/f1.pdf'')
          (parse_path ''outputs/f1_doc.jpg'') ''jpg'' (stored ''uploads/f1.pdf'' ''%PDF'')) = Inr () \<and>
   files (snd (convert_pdf one_page_env (parse_path ''uploads/f1.pdf'')
          (parse_path ''outputs/f1_doc.jpg'') ''jpg'' (stored ''uploads/f1.pdf'' ''%PDF'')))
     (parse_path ''outputs/f1_doc.jpg'') = Some ''page one''"
proof -
  define src where "src = parse_path ''uploads/f1.pdf''"
  define dst where "dst = parse_path ''outputs/f1_doc.jpg''"
  define w where "w = stored ''uploads/f1.pdf'' ''%PDF''"
  define outcome where
    "outcome = subprocess_run one_page_env (poppler_argv src dst ''jpg'') 60 (files w)"
  define w1 where "w1 = \<lparr>files = files_after outcome,
       trace = trace w @ [Call ''convert_pdf'', Call ''convert_pdf_with_poppler'',
                          Exec (poppler_argv src dst ''jpg'')]\<rparr>"
  have h: "''jpg'' = ''png'' \<or> ''jpg'' = ''jpg''" by simp
  have oc: "outcome = Raised (FileNotFoundError ''No such file or directory'') (files w)"
    by (simp add: outcome_def one_page_env_def bare_env_def)
  have absent: "tool_absent outcome"
    by (simp add: oc)
  have sec: "convert_pdf_with_pdfium one_page_env src dst ''jpg'' w1 =
      (True, \<lparr>files = (files w)(dst \<mapsto> ''page one''),
               trace = trace w1 @ [Call ''convert_pdf_with_pdfium'', Lib ''pdfium.PdfDocument'',
                  Lib ''page.render'', Lib ''Image.save'', Lib ''pdf.close'']\<rparr>)"
    by (simp add: w1_def oc convert_pdf_with_pdfium_def pdfium_try_block_def logged_def save_def
        write_file_def flatten_def Let_def one_page_env_def bare_env_def)
  note t = pdf_image_fallback_chain [OF h, where E = one_page_env and src = src and dst = dst
      and w = w, folded outcome_def, folded w1_def, THEN conjunct1, THEN conjunct2,
      THEN conjunct1, rule_format]
  have "convert_pdf one_page_env src dst ''jpg'' w =
          (Inr (), snd (convert_pdf_with_pdfium one_page_env src dst ''jpg'' w1)) \<and>
        exists (snd (convert_pdf_with_pdfium one_page_env src dst ''jpg'' w1)) dst"
  proof (rule t, rule conjI)
    show "tool_absent outcome \<or> (\<exists>rc. exit_code outcome = Some rc \<and> rc \<noteq> 0) \<or>
       exit_code outcome = Some 0 \<and>
       \<not> list_ex (\<lambda>c. files_after outcome c \<noteq> None) (poppler_candidates dst ''jpg'')"
      using absent by (rule disjI1)
    show "fst (convert_pdf_with_pdfium one_page_env src dst ''jpg'' w1)"
      by (simp add: sec)
  qed
  then have r: "convert_pdf one_page_env src dst ''jpg'' w =
      (Inr (), \<lparr>files = (files w)(dst \<mapsto> ''page one''),
               trace = trace w1 @ [Call ''convert_pdf_with_pdfium'', Lib ''pdfium.PdfDocument'',
                  Lib ''page.render'', Lib ''Image.save'', Lib ''pdf.close'']\<rparr>)"
    by (simp add: sec)
  have "fst (convert_pdf one_page_env src dst ''jpg'' w) = Inr ()"
    and "files (snd (convert_pdf one_page_env src dst ''jpg'' w)) dst = Some ''page one''"
    by (simp_all add: r)
  then show ?thesis
    using absent h unfolding outcome_def src_def dst_def w_def by blast
qed

text \<open>
  C3, as stated, fails where pandas is not installed: the adapter raises
  \<open>pandas not installed\<close> for the target xls, not the unsupported-target failure.
\<close>

theorem spreadsheet_xls_without_pandas:
  "fst (convert_spreadsheet bare_env (parse_path ''uploads/f2.csv'')
          (parse_path ''outputs/f2_book.xls'') ''xls'' (stored ''uploads/f2.csv'' ''a,b'')) =
     Inl (RuntimeError ''pandas not installed'') \<and>
   fst (convert_spreadsheet bare_env (parse_path ''uploads/f2.csv'')
          (parse_path ''outputs/f2_book.xls'') ''xls'' (stored ''uploads/f2.csv'' ''a,b'')) \<noteq>
     Inl (RuntimeError ''Unsupported spreadsheet target: xls'')"
  by (simp add: sheet_eval world_eval bare_env_def)

text \<open>
  C3, amended. For a spreadsheet conversion in which pandas is installed and the source
  is read, the targets csv and xlsx are serialised in process, the target pdf is the
  result of the Office adapter, and every other target raises the unsupported-target
  failure; xls is such a target, although the catalog row lists it and the router lets
  it through. Without pandas the adapter raises \<open>pandas not installed\<close>, and a source
  that cannot be read raises the error of the reader, whatever the target.
\<close>

theorem spreadsheet_targets:
  "(\<not> HAS_PANDAS E \<longrightarrow>
      convert_spreadsheet E src dst target w =
        (Inl (RuntimeError ''pandas not installed''),
         \<lparr>files = files w, trace = trace w @ [Call ''convert_spreadsheet'']\<rparr>)) \<and>
   (HAS_PANDAS E \<and>
    read_source E src (logged (Call ''convert_spreadsheet'') w) = (Inl e, w1) \<longrightarrow>
      convert_spreadsheet E src dst target w = (Inl e, w1)) \<and>
   (HAS_PANDAS E \<and>
    read_source E src (logged (Call ''convert_spreadsheet'') w) = (Inr df, w1) \<longrightarrow>
      convert_spreadsheet E src dst ''csv'' w =
        (case to_csv E df of
           Inl e \<Rightarrow> (Inl e, w1\<lparr>trace := trace w1 @ [Lib ''DataFrame.to_csv'']\<rparr>)
         | Inr bytes \<Rightarrow>
             (Inr (), \<lparr>files = (files w1)(dst \<mapsto> bytes),
                       trace = trace w1 @ [Lib ''DataFrame.to_csv'']\<rparr>)) \<and>
      convert_spreadsheet E src dst ''xlsx'' w =
        (case to_excel E df of
           Inl e \<Rightarrow> (Inl e, w1\<lparr>trace := trace w1 @ [Lib ''DataFrame.to_excel'']\<rparr>)
         | Inr bytes \<Rightarrow>
             (Inr (), \<lparr>files = (files w1)(dst \<mapsto> bytes),
                       trace = trace w1 @ [Lib ''DataFrame.to_excel'']\<rparr>)) \<and>
      convert_spreadsheet E src dst ''pdf'' w = convert_office E src dst ''pdf'' w1 \<and>
      (target \<notin> set [''csv'', ''xlsx'', ''pdf''] \<longrightarrow>
         convert_spreadsheet E src dst target w =
           (Inl (RuntimeError (''Unsupported spreadsheet target: '' @ target)), w1)) \<and>
      convert_spreadsheet E src dst ''xls'' w =
        (Inl (RuntimeError ''Unsupported spreadsheet target: xls''), w1)) \<and>
   ''xls'' \<in> set (dict_get FORMAT_MAP ''spreadsheet'' [])"
proof -
  have row: "''xls'' \<in> set (dict_get FORMAT_MAP ''spreadsheet'' [])"
    by (simp add: row_cases)
  have a: "\<not> HAS_PANDAS E \<longrightarrow>
      convert_spreadsheet E src dst target w =
        (Inl (RuntimeError ''pandas not installed''),
         \<lparr>files = files w, trace = trace w @ [Call ''convert_spreadsheet'']\<rparr>)"
    by (simp add: convert_spreadsheet_def Let_def logged_def)
  have b: "HAS_PANDAS E \<and>
    read_source E src (logged (Call ''convert_spreadsheet'') w) = (Inl e, w1) \<longrightarrow>
      convert_spreadsheet E src dst target w = (Inl e, w1)"
    by (simp add: convert_spreadsheet_def Let_def)
  show ?thesis
    using a b row
    by (simp add: convert_spreadsheet_def Let_def write_frame_def write_file_def logged_def
        split: sum.splits)
qed

text \<open>
  C3, amended, at a CSV source: without pandas, with pandas and the source missing, and
  with pandas and the source read, through the adapter and through the endpoint, where
  the router accepts the target xls.
\<close>

theorem spreadsheet_targets_witness:
  "\<not> HAS_PANDAS bare_env \<and> HAS_PANDAS pandas_env \<and>
   fst (convert_spreadsheet bare_env (parse_path ''uploads/f2.csv'')
          (parse_path ''outputs/f2_book.csv'') ''csv'' (stored ''uploads/f2.csv'' ''a,b'')) =
     Inl (RuntimeError ''pandas not installed'') \<and>
   fst (convert_spreadsheet pandas_env (parse_path ''uploads/f3.csv'')
          (parse_path ''outputs/f3_book.xls'') ''xls'' (stored ''uploads/f2.csv'' ''a,b'')) =
     Inl (FileNotFoundError ''No such file'') \<and>
   fst (convert_spreadsheet pandas_env (parse_path ''uploads/f2.csv'')
          (parse_path ''outputs/f2_book.xls'') ''xls'' (stored ''uploads/f2.csv'' ''a,b'')) =
     Inl (RuntimeError ''Unsupported spreadsheet target: xls'') \<and>
   fst (convert_file pandas_env
          \<lparr>file_id = ''f2'', filename = ''book.csv'', target_format = ''xls''\<rparr>
          (stored ''uploads/f2.csv'' ''a,b'')) =
     Inl (HTTPException 500 ''Conversion failed: Unsupported spreadsheet target: xls'')"
proof -
  have no: "\<not> HAS_PANDAS bare_env"
    by (simp add: bare_env_def)
  have has: "HAS_PANDAS pandas_env"
    by (simp add: pandas_env_def bare_env_def)
  have rd: "read_source pandas_env (parse_path ''uploads/f2.csv'')
              (logged (Call ''convert_spreadsheet'') (stored ''uploads/f2.csv'' ''a,b'')) =
            (Inr ''a,b'',
             \<lparr>files = [parse_path ''uploads/f2.csv'' \<mapsto> ''a,b''],
                trace = [Call ''convert_spreadsheet'', Lib ''pandas.read_csv'']\<rparr>)"
    by (simp add: read_source_def world_eval path_eval string_eval pandas_env_def bare_env_def)
  have bad: "read_source pandas_env (parse_path ''uploads/f3.csv'')
              (logged (Call ''convert_spreadsheet'') (stored ''uploads/f2.csv'' ''a,b'')) =
            (Inl (FileNotFoundError ''No such file''),
             \<lparr>files = [parse_path ''uploads/f2.csv'' \<mapsto> ''a,b''],
                trace = [Call ''convert_spreadsheet'', Lib ''pandas.read_csv'']\<rparr>)"
    by (simp add: read_source_def world_eval path_eval string_eval pandas_env_def bare_env_def)
  have c1: "fst (convert_spreadsheet bare_env (parse_path ''uploads/f2.csv'')
          (parse_path ''outputs/f2_book.csv'') ''csv'' (stored ''uploads/f2.csv'' ''a,b'')) =
     Inl (RuntimeError ''pandas not installed'')"
    using spreadsheet_targets [where E = bare_env and target = "''csv''", THEN conjunct1] no
    by simp
  have c2: "fst (convert_spreadsheet pandas_env (parse_path ''uploads/f3.csv'')
          (parse_path ''outputs/f3_book.xls'') ''xls'' (stored ''uploads/f2.csv'' ''a,b'')) =
     Inl (FileNotFoundError ''No such file'')"
    using spreadsheet_targets [where E = pandas_env and target = "''xls''",
        THEN conjunct2, THEN conjunct1, rule_format, OF conjI, OF has bad]
    by simp
  have c3: "fst (convert_spreadsheet pandas_env (parse_path ''uploads/f2.csv'')
          (parse_path ''outputs/f2_book.xls'') ''xls'' (stored ''uploads/f2.csv'' ''a,b'')) =
     Inl (RuntimeError ''Unsupported spreadsheet target: xls'')"
    using spreadsheet_targets [where E = pandas_env and target = "''xls''",
        THEN conjunct2, THEN conjunct2, THEN conjunct1, rule_format, OF conjI, OF has rd]
    by simp
  have c4: "fst (convert_file pandas_env
          \<lparr>file_id = ''f2'', filename = ''book.csv'', target_format = ''xls''\<rparr>
          (stored ''uploads/f2.csv'' ''a,b'')) =
     Inl (HTTPException 500 ''Conversion failed: Unsupported spreadsheet target: xls'')"
    by (simp add: router_eval sheet_eval world_eval path_eval string_eval pandas_env_def
        bare_env_def)
  show ?thesis
    using no has c1 c2 c3 c4 by simp
qed

text \<open>
  C4. Where \<open>str.lower\<close> commutes with the stripping of leading dots and is the ASCII
  table on ASCII strings, as Python's is: for every file name and optional MIME hint,
  \<open>detect_category\<close> raises nothing and returns what the specification's classifier
  returns: the extension table's category when the normalised extension is in that table
  (the hint is then not looked at), otherwise the category of a prefix match of the hint
  on \<open>image/\<close>, \<open>audio/\<close> or \<open>video/\<close>, otherwise the exact entry of the hint in the MIME
  table, otherwise \<open>unknown\<close>. In particular \<open>report.PDF\<close> without a hint is a \<open>pdf\<close>,
  and \<open>data\<close> with the hint \<open>text/csv\<close> is a \<open>spreadsheet\<close>.
\<close>

theorem detect_category_classifies:
  assumes comm: "\<And>s. lstrip_dot (str_lower E s) = str_lower E (lstrip_dot s)"
    and ascii: "\<And>s. is_ascii s \<Longrightarrow> str_lower E s = ascii_lower s"
  shows "detect_category E fname mime = Inr (classify_spec E fname mime) \<and>
         detect_category E ''report.PDF'' None = Inr ''pdf'' \<and>
         detect_category E ''data'' (Some ''text/csv'') = Inr ''spreadsheet''"
proof -
  have pdf: "str_lower E ''PDF'' = ''pdf''" and nil: "str_lower E [] = []"
    by (simp_all add: ascii ascii_eval)
  have a: "detect_category E ''report.PDF'' None = Inr ''pdf''"
    by (simp add: detect_category_def parse_path_def root_of_def startswith_def suffix_def
        name_def lstrip_dot_def pdf dict_contains_def dict_index_def EXT_TO_CATEGORY_def)
  have b: "detect_category E ''data'' (Some ''text/csv'') = Inr ''spreadsheet''"
    by (simp add: detect_category_def data_has_no_suffix lstrip_dot_def nil
        dict_contains_def dict_index_def EXT_TO_CATEGORY_def MIME_TO_CATEGORY_def
        startswith_def)
  show ?thesis
    using a b by (simp add: detect_category_refines [OF comm])
qed

text \<open>C4, at \<open>photo.JPG\<close> with the hint \<open>text/plain\<close>: the extension decides.\<close>

theorem detect_category_classifies_witness:
  "detect_category bare_env ''photo.JPG'' (Some ''text/plain'') = Inr ''image'' \<and>
   classify_spec bare_env ''photo.JPG'' (Some ''text/plain'') = ''image'' \<and>
   detect_category bare_env ''report.PDF'' None = Inr ''pdf''"
proof -
  note t = detect_category_classifies [where E = bare_env, OF bare_env_laws(2) bare_env_laws(3)]
  have c: "classify_spec bare_env ''photo.JPG'' (Some ''text/plain'') = ''image''"
    by (simp add: classify_spec_def normalize_ext_def path_eval string_eval bare_env_lower
        dict_get_def EXT_ALIASES_def EXT_TO_CATEGORY_def)
  from t [of "''photo.JPG''" "Some ''text/plain''"] c show ?thesis
    by simp
qed

text \<open>
  C5. Where \<open>str.lower\<close> is idempotent, commutes with the stripping of leading dots and
  is the ASCII table on ASCII strings, as Python's is: for every category and target
  string, the validation of \<open>convert_file\<close> passes if and only if the normalised target
  is a member of the catalog row of the category (the row of \<open>unknown\<close> is empty); the
  extension of the input plays no part. A request whose upload exists and whose target
  fails the validation is answered 400 with a message that names the requested extension
  and the category, and the world is as before: no adapter was called. A request whose
  upload exists and whose target passes is handed to the adapter of the category, the
  answer is what follows from the result of that adapter, and it is never a 400.
\<close>

theorem target_validation:
  assumes idem: "\<And>s. str_lower E (str_lower E s) = str_lower E s"
    and comm: "\<And>s. lstrip_dot (str_lower E s) = str_lower E (lstrip_dot s)"
    and ascii: "\<And>s. is_ascii s \<Longrightarrow> str_lower E s = ascii_lower s"
  shows
  "(normalize_ext E (lstrip_dot (str_lower E t)) \<in> allowed_targets E category \<longleftrightarrow>
      normalize_ext E t \<in> set (dict_get FORMAT_MAP category [])) \<and>
   allowed_targets E ''unknown'' = {} \<and>
   (exists w (joinpath UPLOAD_DIR (file_id req @ suffix (parse_path (filename req)))) \<and>
    detect_category E (filename req) None = Inr c \<and>
    normalize_ext E (target_format req) \<notin> set (dict_get FORMAT_MAP c []) \<longrightarrow>
      convert_file E req w =
        (Inl (HTTPException 400
                (''Target .'' @ lstrip_dot (str_lower E (target_format req)) @
                 '' is not supported for '' @ c)), w)) \<and>
   (exists w (joinpath UPLOAD_DIR (file_id req @ suffix (parse_path (filename req)))) \<and>
    detect_category E (filename req) None = Inr c \<and>
    normalize_ext E (target_format req) \<in> set (dict_get FORMAT_MAP c []) \<longrightarrow>
      convert_file E req w =
        (let target_raw = lstrip_dot (str_lower E (target_format req));
             output_filename = stem (parse_path (filename req)) @ ''.'' @ target_raw;
             output_path = joinpath OUTPUT_DIR (file_id req @ ''_'' @ output_filename)
         in case dispatch E c
                   (joinpath UPLOAD_DIR (file_id req @ suffix (parse_path (filename req))))
                   output_path (normalize_ext E (target_format req)) w of
              (Inl e, w1) \<Rightarrow> (Inl e, w1)
            | (Inr u, w1) \<Rightarrow>
                if \<not> exists w1 output_path
                then (Inl (HTTPException 500 ''Conversion produced no output file''), w1)
                else (Inr (FileResponse (str_path output_path) output_filename
                             ''application/octet-stream''), w1)) \<and>
      (\<forall>m. fst (convert_file E req w) \<noteq> Inl (HTTPException 400 m)))"
proof -
  have raw: "\<And>x. normalize_ext E (lstrip_dot (str_lower E x)) = normalize_ext E x"
    using idem comm by (rule target_raw_normal)
  have test: "\<And>x k. (normalize_ext E (lstrip_dot (str_lower E x)) \<in> allowed_targets E k) =
      (normalize_ext E x \<in> set (dict_get FORMAT_MAP k []))"
    unfolding raw using idem comm ascii by (rule allowed_iff_row)
  have a: "allowed_targets E ''unknown'' = {}"
    by (simp add: allowed_targets_def row_cases)
  have b: "exists w (joinpath UPLOAD_DIR (file_id req @ suffix (parse_path (filename req)))) \<and>
    detect_category E (filename req) None = Inr c \<and>
    normalize_ext E (target_format req) \<notin> set (dict_get FORMAT_MAP c []) \<longrightarrow>
      convert_file E req w =
        (Inl (HTTPException 400
                (''Target .'' @ lstrip_dot (str_lower E (target_format req)) @
                 '' is not supported for '' @ c)), w)"
    by (simp add: convert_file_rejects test)
  have d: "exists w (joinpath UPLOAD_DIR (file_id req @ suffix (parse_path (filename req)))) \<and>
    detect_category E (filename req) None = Inr c \<and>
    normalize_ext E (target_format req) \<in> set (dict_get FORMAT_MAP c []) \<longrightarrow>
      convert_file E req w =
        (let target_raw = lstrip_dot (str_lower E (target_format req));
             output_filename = stem (parse_path (filename req)) @ ''.'' @ target_raw;
             output_path = joinpath OUTPUT_DIR (file_id req @ ''_'' @ output_filename)
         in case dispatch E c
                   (joinpath UPLOAD_DIR (file_id req @ suffix (parse_path (filename req))))
                   output_path (normalize_ext E (target_format req)) w of
              (Inl e, w1) \<Rightarrow> (Inl e, w1)
            | (Inr u, w1) \<Rightarrow>
                if \<not> exists w1 output_path
                then (Inl (HTTPException 500 ''Conversion produced no output file''), w1)
                else (Inr (FileResponse (str_path output_path) output_filename
                             ''application/octet-stream''), w1)) \<and>
      (\<forall>m. fst (convert_file E req w) \<noteq> Inl (HTTPException 400 m))"
  proof (rule impI, elim conjE)
    assume ex: "exists w (joinpath UPLOAD_DIR (file_id req @ suffix (parse_path (filename req))))"
      and cat: "detect_category E (filename req) None = Inr c"
      and row: "normalize_ext E (target_format req) \<in> set (dict_get FORMAT_MAP c [])"
    have ok: "normalize_ext E (lstrip_dot (str_lower E (target_format req))) \<in>
              allowed_targets E c"
      using row by (simp add: test)
    have eq: "convert_file E req w =
        (let target_raw = lstrip_dot (str_lower E (target_format req));
             output_filename = stem (parse_path (filename req)) @ ''.'' @ target_raw;
             output_path = joinpath OUTPUT_DIR (file_id req @ ''_'' @ output_filename)
         in case dispatch E c
                   (joinpath UPLOAD_DIR (file_id req @ suffix (parse_path (filename req))))
                   output_path (normalize_ext E (target_format req)) w of
              (Inl e, w1) \<Rightarrow> (Inl e, w1)
            | (Inr u, w1) \<Rightarrow>
                if \<not> exists w1 output_path
                then (Inl (HTTPException 500 ''Conversion produced no output file''), w1)
                else (Inr (FileResponse (str_path output_path) output_filename
                             ''application/octet-stream''), w1))"
      unfolding convert_file_accepts [OF ex cat ok] Let_def raw ..
    have no: "\<forall>m. fst (convert_file E req w) \<noteq> Inl (HTTPException 400 m)"
      using convert_file_accepted_not_400 [OF ex cat ok] by blast
    from eq no show "convert_file E req w =
        (let target_raw = lstrip_dot (str_lower E (target_format req));
             output_filename = stem (parse_path (filename req)) @ ''.'' @ target_raw;
             output_path = joinpath OUTPUT_DIR (file_id req @ ''_'' @ output_filename)
         in case dispatch E c
                   (joinpath UPLOAD_DIR (file_id req @ suffix (parse_path (filename req))))
                   output_path (normalize_ext E (target_format req)) w of
              (Inl e, w1) \<Rightarrow> (Inl e, w1)
            | (Inr u, w1) \<Rightarrow>
                if \<not> exists w1 output_path
                then (Inl (HTTPException 500 ''Conversion produced no output file''), w1)
                else (Inr (FileResponse (str_path output_path) output_filename
                             ''application/octet-stream''), w1)) \<and>
      (\<forall>m. fst (convert_file E req w) \<noteq> Inl (HTTPException 400 m))"
      by (rule conjI)
  qed
  from test [of t category] a b d show ?thesis
    by (intro conjI)
qed

text \<open>
  C5, at an uploaded mp3 with the target bmp, which is rejected, and at an uploaded CSV
  with the target \<open>.XLSX\<close>, which is accepted and converted.
\<close>

theorem target_validation_witness:
  "exists (stored ''uploads/a1.mp3'' ''ID3'')
     (joinpath UPLOAD_DIR (''a1'' @ suffix (parse_path ''song.mp3''))) \<and>
   detect_category bare_env ''song.mp3'' None = Inr ''audio'' \<and>
   normalize_ext bare_env ''bmp'' \<notin> set (dict_get FORMAT_MAP ''audio'' []) \<and>
   convert_file bare_env \<lparr>file_id = ''a1'', filename = ''song.mp3'', target_format = ''bmp''\<rparr>
       (stored ''uploads/a1.mp3'' ''ID3'') =
     (Inl (HTTPException 400 ''Target .bmp is not supported for audio''),
      stored ''uploads/a1.mp3'' ''ID3'') \<and>
   exists (stored ''uploads/f2.csv'' ''a,b'')
     (joinpath UPLOAD_DIR (''f2'' @ suffix (parse_path ''book.csv''))) \<and>
   detect_category pandas_env ''book.csv'' None = Inr ''spreadsheet'' \<and>
   normalize_ext pandas_env ''.XLSX'' \<in> set (dict_get FORMAT_MAP ''spreadsheet'' []) \<and>
   convert_file pandas_env \<lparr>file_id = ''f2'', filename = ''book.csv'', target_format = ''.XLSX''\<rparr>
       (stored ''uploads/f2.csv'' ''a,b'') =
     (Inr (FileResponse ''outputs/f2_book.xlsx'' ''book.xlsx'' ''application/octet-stream''),
      \<lparr>files = [parse_path ''uploads/f2.csv'' \<mapsto> ''a,b'',
                 parse_path ''outputs/f2_book.xlsx'' \<mapsto> ''a,b''],
        trace = [Call ''convert_spreadsheet'', Lib ''pandas.read_csv'',
                 Lib ''DataFrame.to_excel'']\<rparr>)"
proof -
  define req1 where
    "req1 = \<lparr>file_id = ''a1'', filename = ''song.mp3'', target_format = ''bmp''\<rparr>"
  define req2 where
    "req2 = \<lparr>file_id = ''f2'', filename = ''book.csv'', target_format = ''.XLSX''\<rparr>"
  define w2 where "w2 = stored ''uploads/f2.csv'' ''a,b''"
  note laws = ascii_lower_laws [OF sample_lower(4)]
  have a: "exists (stored ''uploads/a1.mp3'' ''ID3'')
     (joinpath UPLOAD_DIR (file_id req1 @ suffix (parse_path (filename req1))))"
    by (simp add: req1_def world_eval path_eval)
  have b: "detect_category bare_env (filename req1) None = Inr ''audio''"
    by (simp add: req1_def router_eval path_eval string_eval bare_env_lower)
  have c: "normalize_ext bare_env (target_format req1) \<notin> set (dict_get FORMAT_MAP ''audio'' [])"
    by (simp add: req1_def normalize_literals [OF bare_env_laws(3)] row_cases)
  have r1: "convert_file bare_env req1 (stored ''uploads/a1.mp3'' ''ID3'') =
     (Inl (HTTPException 400
        (''Target .'' @ lstrip_dot (str_lower bare_env (target_format req1)) @
         '' is not supported for '' @ ''audio'')),
      stored ''uploads/a1.mp3'' ''ID3'')"
    using target_validation [where E = bare_env and req = req1 and c = "''audio''"
        and w = "stored ''uploads/a1.mp3'' ''ID3''", OF bare_env_laws,
        THEN conjunct2, THEN conjunct2, THEN conjunct1, rule_format, OF conjI, OF a conjI,
        OF b c] .
  have a2: "exists w2 (joinpath UPLOAD_DIR (file_id req2 @ suffix (parse_path (filename req2))))"
    by (simp add: req2_def w2_def world_eval path_eval)
  have b2: "detect_category pandas_env (filename req2) None = Inr ''spreadsheet''"
    by (simp add: req2_def router_eval path_eval string_eval sample_lower)
  have n2: "normalize_ext pandas_env (target_format req2) = ''xlsx''"
    by (simp add: req2_def normalize_ext_def Let_def sample_lower string_eval alias_cases)
  have c2: "normalize_ext pandas_env (target_format req2) \<in>
            set (dict_get FORMAT_MAP ''spreadsheet'' [])"
    by (simp add: n2 row_cases)
  have d2: "dispatch pandas_env ''spreadsheet'' (parse_path ''uploads/f2.csv'')
              (parse_path ''outputs/f2_book.xlsx'') ''xlsx'' w2 =
            (Inr (), \<lparr>files = [parse_path ''uploads/f2.csv'' \<mapsto> ''a,b'',
                                parse_path ''outputs/f2_book.xlsx'' \<mapsto> ''a,b''],
                      trace = [Call ''convert_spreadsheet'', Lib ''pandas.read_csv'',
                               Lib ''DataFrame.to_excel'']\<rparr>)"
    by (simp add: w2_def dispatch_def sheet_eval world_eval path_eval string_eval
        pandas_env_def bare_env_def)
  have p2: "joinpath UPLOAD_DIR (file_id req2 @ suffix (parse_path (filename req2))) =
            parse_path ''uploads/f2.csv''"
    "joinpath OUTPUT_DIR (file_id req2 @ ''_'' @ (stem (parse_path (filename req2)) @ ''.'' @
       lstrip_dot (str_lower pandas_env (target_format req2)))) =
     parse_path ''outputs/f2_book.xlsx''"
    "stem (parse_path (filename req2)) @ ''.'' @
       lstrip_dot (str_lower pandas_env (target_format req2)) = ''book.xlsx''"
    "str_path (parse_path ''outputs/f2_book.xlsx'') = ''outputs/f2_book.xlsx''"
    by (simp_all add: req2_def path_eval string_eval sample_lower)
  have p3: "file_id req2 = ''f2''"
    "joinpath OUTPUT_DIR ''f2_book.xlsx'' = parse_path ''outputs/f2_book.xlsx''"
    by (simp_all add: req2_def path_eval)
  have ex2: "exists \<lparr>files = [parse_path ''uploads/f2.csv'' \<mapsto> ''a,b'',
                                parse_path ''outputs/f2_book.xlsx'' \<mapsto> ''a,b''],
                      trace = [Call ''convert_spreadsheet'', Lib ''pandas.read_csv'',
                               Lib ''DataFrame.to_excel'']\<rparr>
               (parse_path ''outputs/f2_book.xlsx'')"
    by (simp add: exists_def)
  have r2: "convert_file pandas_env req2 w2 =
     (Inr (FileResponse ''outputs/f2_book.xlsx'' ''book.xlsx'' ''application/octet-stream''),
      \<lparr>files = [parse_path ''uploads/f2.csv'' \<mapsto> ''a,b'',
                 parse_path ''outputs/f2_book.xlsx'' \<mapsto> ''a,b''],
        trace = [Call ''convert_spreadsheet'', Lib ''pandas.read_csv'',
                 Lib ''DataFrame.to_excel'']\<rparr>)"
    unfolding target_validation [where E = pandas_env and req = req2 and c = "''spreadsheet''"
        and w = w2, OF laws,
        THEN conjunct2, THEN conjunct2, THEN conjunct2, rule_format, OF conjI, OF a2 conjI,
        OF b2 c2, THEN conjunct1] Let_def p2 n2
    using ex2 by (simp add: p3 d2 p2(4))
  have s1: "lstrip_dot (str_lower bare_env ''bmp'') = ''bmp''"
    by (simp add: string_eval bare_env_lower)
  show ?thesis
    using a b c r1 a2 b2 c2 r2 unfolding req1_def req2_def w2_def
    by (simp add: s1)
qed

text \<open>
  C6. Where \<open>str.lower\<close> is idempotent, commutes with the stripping of leading dots and
  is the ASCII table on ASCII strings, as Python's is: for every category and input
  extension, the suggestion list is the catalog row of the category (the empty list for
  \<open>unknown\<close>) without the entries whose normalised form is the normalised input
  extension, in catalog order; so the normalised input extension is never suggested.
  This is the list that \<open>upload_file\<close> returns: every upload is answered, and the
  suggestions of the answer are the catalog row of the category of the answer, which is
  the detected one, filtered by the extension of the uploaded file name.
\<close>

theorem suggestions_exclude_input:
  assumes idem: "\<And>s. str_lower E (str_lower E s) = str_lower E s"
    and comm: "\<And>s. lstrip_dot (str_lower E s) = str_lower E (lstrip_dot s)"
    and ascii: "\<And>s. is_ascii s \<Longrightarrow> str_lower E s = ascii_lower s"
  shows
  "suggestions E category ext =
     filter (\<lambda>s. normalize_ext E s \<noteq> normalize_ext E ext) (dict_get FORMAT_MAP category []) \<and>
   subseq (suggestions E category ext) (dict_get FORMAT_MAP category []) \<and>
   suggestions E ''unknown'' ext = [] \<and>
   normalize_ext E ext \<notin> set (suggestions E category ext) \<and>
   (\<exists>resp. fst (upload_file E fid upl w) = Inr resp \<and>
      detect_category E (upload_filename upl) (Some (resp_mime_type resp)) =
        Inr (resp_category resp) \<and>
      resp_suggestions resp =
        filter (\<lambda>s. normalize_ext E s \<noteq>
                    normalize_ext E (suffix (parse_path (upload_filename upl))))
          (dict_get FORMAT_MAP (resp_category resp) []) \<and>
      normalize_ext E (suffix (parse_path (upload_filename upl))) \<notin>
        set (resp_suggestions resp))"
proof -
  have fixed: "\<And>x. normalize_ext E (normalize_ext E x) = normalize_ext E x"
    using idem comm ascii by (rule normalize_ext_fixed)
  have strip: "\<And>x. normalize_ext E (lstrip_dot x) = normalize_ext E x"
    using comm by (rule normalize_lstrip)
  have a: "suggestions E ''unknown'' ext = []"
    by (simp add: suggestions_def Let_def dict_get_def FORMAT_MAP_def)
  have b: "\<And>k x. normalize_ext E x \<notin> set (suggestions E k x)"
    by (auto simp: suggestions_def Let_def fixed)
  have c: "\<And>k x. suggestions E k x =
     filter (\<lambda>s. normalize_ext E s \<noteq> normalize_ext E x) (dict_get FORMAT_MAP k [])"
    by (simp add: suggestions_def Let_def)
  obtain k m where
    det: "detect_category E (upload_filename upl) (Some m) = Inr k"
    and up: "upload_file E fid upl w =
       (Inr (UploadResponse fid (upload_filename upl) k m
               (suggestions E k (lstrip_dot (suffix (parse_path (upload_filename upl)))))),
        write_file (joinpath UPLOAD_DIR (fid @ suffix (parse_path (upload_filename upl))))
          (file_data upl) w)"
    using upload_file_response [of E upl fid w] by blast
  define resp where
    "resp = UploadResponse fid (upload_filename upl) k m
               (suggestions E k (lstrip_dot (suffix (parse_path (upload_filename upl)))))"
  have r1: "fst (upload_file E fid upl w) = Inr resp"
    by (simp add: up resp_def)
  have r2: "detect_category E (upload_filename upl) (Some (resp_mime_type resp)) =
        Inr (resp_category resp)"
    by (simp add: resp_def det)
  have r3: "resp_suggestions resp =
        filter (\<lambda>s. normalize_ext E s \<noteq>
                    normalize_ext E (suffix (parse_path (upload_filename upl))))
          (dict_get FORMAT_MAP (resp_category resp) [])"
    by (simp add: resp_def c strip)
  have r4: "normalize_ext E (suffix (parse_path (upload_filename upl))) \<notin>
        set (resp_suggestions resp)"
    using b [of "lstrip_dot (suffix (parse_path (upload_filename upl)))" k]
    by (simp add: resp_def strip)
  have up_ok: "\<exists>resp. fst (upload_file E fid upl w) = Inr resp \<and>
      detect_category E (upload_filename upl) (Some (resp_mime_type resp)) =
        Inr (resp_category resp) \<and>
      resp_suggestions resp =
        filter (\<lambda>s. normalize_ext E s \<noteq>
                    normalize_ext E (suffix (parse_path (upload_filename upl))))
          (dict_get FORMAT_MAP (resp_category resp) []) \<and>
      normalize_ext E (suffix (parse_path (upload_filename upl))) \<notin>
        set (resp_suggestions resp)"
    using r1 r2 r3 r4 by blast
  have sub: "subseq (suggestions E category ext) (dict_get FORMAT_MAP category [])"
    by (simp add: c)
  from c [of category ext] sub a b [of ext category] up_ok show ?thesis
    by (intro conjI)
qed

text \<open>C6, at the upload of \<open>photo.JPEG\<close>: neither jpg nor jpeg is suggested.\<close>

theorem suggestions_exclude_input_witness:
  "suggestions bare_env ''image'' ''JPEG'' =
     [''png'', ''webp'', ''pdf'', ''tiff'', ''tif'', ''bmp'', ''gif'', ''ico''] \<and>
   normalize_ext bare_env ''JPEG'' = ''jpg'' \<and>
   fst (upload_file bare_env ''u1''
          \<lparr>upload_filename = ''photo.JPEG'', content_type = Some ''image/jpeg'',
            file_data = ''pixels''\<rparr> \<lparr>files = Map.empty, trace = []\<rparr>) =
     Inr (UploadResponse ''u1'' ''photo.JPEG'' ''image'' ''image/jpeg''
            [''png'', ''webp'', ''pdf'', ''tiff'', ''tif'', ''bmp'', ''gif'', ''ico''])"
proof -
  define upl where
    "upl = \<lparr>upload_filename = ''photo.JPEG'', content_type = Some ''image/jpeg'',
             file_data = ''pixels''\<rparr>"
  define w where "w = \<lparr>files = Map.empty, trace = []\<rparr>"
  note t = suggestions_exclude_input [where E = bare_env and category = "''image''"
      and ext = "''JPEG''" and fid = "''u1''" and upl = upl and w = w, OF bare_env_laws]
  have n: "normalize_ext bare_env ''JPEG'' = ''jpg''"
    "normalize_ext bare_env ''.JPEG'' = ''jpg''"
    by (simp_all add: normalize_ext_def Let_def bare_env_lower string_eval alias_cases)
  have sfx: "suffix (parse_path (upload_filename upl)) = ''.JPEG''"
    by (simp add: upl_def path_eval)
  have row: "filter (\<lambda>s. normalize_ext bare_env s \<noteq> ''jpg'') (dict_get FORMAT_MAP ''image'' []) =
     [''png'', ''webp'', ''pdf'', ''tiff'', ''tif'', ''bmp'', ''gif'', ''ico'']"
    by (simp add: row_cases normalize_literals [OF bare_env_laws(3)])
  have s: "suggestions bare_env ''image'' ''JPEG'' =
     [''png'', ''webp'', ''pdf'', ''tiff'', ''tif'', ''bmp'', ''gif'', ''ico'']"
    using t [THEN conjunct1] by (simp add: n row)
  have mime: "\<And>p v. detect_mime bare_env upl p v = ''image/jpeg''"
    by (simp add: detect_mime_def upl_def bare_env_def)
  have det: "\<And>c. detect_category bare_env ''photo.JPEG'' (Some ''image/jpeg'') = Inr c \<Longrightarrow>
      c = ''image''"
    by (simp add: router_eval path_eval string_eval bare_env_lower)
  from t [THEN conjunct2, THEN conjunct2, THEN conjunct2, THEN conjunct2]
  obtain resp where r1: "fst (upload_file bare_env ''u1'' upl w) = Inr resp"
    and r2: "detect_category bare_env (upload_filename upl) (Some (resp_mime_type resp)) =
        Inr (resp_category resp)"
    and r3: "resp_suggestions resp =
        filter (\<lambda>s. normalize_ext bare_env s \<noteq>
                    normalize_ext bare_env (suffix (parse_path (upload_filename upl))))
          (dict_get FORMAT_MAP (resp_category resp) [])"
    by blast
  have shape: "resp_file_id resp = ''u1'' \<and> resp_filename resp = ''photo.JPEG'' \<and>
      resp_mime_type resp = ''image/jpeg''"
    using r1 unfolding upload_file_def Let_def mime
    by (auto simp: upl_def split: sum.splits)
  have cat: "resp_category resp = ''image''"
    using r2 shape det by (simp add: upl_def)
  have sug: "resp_suggestions resp =
     [''png'', ''webp'', ''pdf'', ''tiff'', ''tif'', ''bmp'', ''gif'', ''ico'']"
    using r3 by (simp add: cat sfx n row)
  have "resp = UploadResponse ''u1'' ''photo.JPEG'' ''image'' ''image/jpeg''
            [''png'', ''webp'', ''pdf'', ''tiff'', ''tif'', ''bmp'', ''gif'', ''ico'']"
    using shape cat sug by (cases resp) simp
  with r1 s n(1) show ?thesis
    unfolding upl_def w_def by simp
qed

text \<open>
  C7. After LibreOffice exits with code 0, the adapter looks for the directory of the
  destination joined with the stem of the source and the target format. If a file is
  there and the path is not the destination, it is renamed to the destination; otherwise
  nothing is renamed. So for a source named \<open>notes.docx\<close>, the target pdf and a
  destination named \<open>{id}_notes.pdf\<close>, the file the tool wrote as \<open>notes.pdf\<close> ends up
  at the destination and is gone from where the tool wrote it.
\<close>

theorem office_output_moved_into_place:
  assumes "subprocess_run E (office_argv src dst target) 120 (files w) = Completed 0 err fs"
  shows "convert_office E src dst target w =
     (let expected = joinpath (parent dst) (stem src @ ''.'' @ target);
          tr = trace w @ [Call ''convert_office'', Exec (office_argv src dst target)]
      in if fs expected \<noteq> None \<and> expected \<noteq> dst
         then (Inr (), \<lparr>files = fs(dst := fs expected, expected := None),
                         trace = tr @ [Rename expected dst]\<rparr>)
         else (Inr (), \<lparr>files = fs, trace = tr\<rparr>)) \<and>
     (name src = ''notes.docx'' \<and> target = ''pdf'' \<and> name dst = aid @ ''_notes.pdf'' \<and>
      fs (joinpath (parent dst) ''notes.pdf'') = Some c \<longrightarrow>
        fst (convert_office E src dst target w) = Inr () \<and>
        files (snd (convert_office E src dst target w)) dst = Some c \<and>
        files (snd (convert_office E src dst target w)) (joinpath (parent dst) ''notes.pdf'') =
          None)"
proof -
  note g = office_general [OF assms]
  have scenario: "name src = ''notes.docx'' \<and> target = ''pdf'' \<and>
      name dst = aid @ ''_notes.pdf'' \<and>
      fs (joinpath (parent dst) ''notes.pdf'') = Some c \<longrightarrow>
        fst (convert_office E src dst target w) = Inr () \<and>
        files (snd (convert_office E src dst target w)) dst = Some c \<and>
        files (snd (convert_office E src dst target w)) (joinpath (parent dst) ''notes.pdf'') =
          None"
  proof (rule impI, elim conjE)
    assume n: "name src = ''notes.docx''" and t: "target = ''pdf''"
      and d: "name dst = aid @ ''_notes.pdf''"
      and f: "fs (joinpath (parent dst) ''notes.pdf'') = Some c"
    have st: "stem src = ''notes''" using n by (rule stem_notes)
    have ne: "joinpath (parent dst) ''notes.pdf'' \<noteq> dst"
      using notes_expected(2) [OF n d] by (simp add: st)
    show "fst (convert_office E src dst target w) = Inr () \<and>
        files (snd (convert_office E src dst target w)) dst = Some c \<and>
        files (snd (convert_office E src dst target w)) (joinpath (parent dst) ''notes.pdf'') =
          None"
      using ne f g unfolding t by (simp add: st Let_def)
  qed
  show ?thesis
    by (rule conjI [OF g scenario])
qed

text \<open>C7, at \<open>notes.docx\<close> and the destination \<open>outputs/a1_notes.pdf\<close>.\<close>

theorem office_output_moved_into_place_witness:
  "subprocess_run office_env
     (office_argv (parse_path ''uploads/notes.docx'') (parse_path ''outputs/a1_notes.pdf'') ''pdf'')
     120 (files (stored ''uploads/notes.docx'' ''text'')) =
     Completed 0 [] ((files (stored ''uploads/notes.docx'' ''text''))
                       (parse_path ''outputs/notes.pdf'' \<mapsto> ''notes as pdf'')) \<and>
   name (parse_path ''uploads/notes.docx'') = ''notes.docx'' \<and>
   name (parse_path ''outputs/a1_notes.pdf'') = ''a1'' @ ''_notes.pdf'' \<and>
   fst (convert_office office_env (parse_path ''uploads/notes.docx'')
          (parse_path ''outputs/a1_notes.pdf'') ''pdf'' (stored ''uploads/notes.docx'' ''text'')) =
     Inr () \<and>
   files (snd (convert_office office_env (parse_path ''uploads/notes.docx'')
          (parse_path ''outputs/a1_notes.pdf'') ''pdf'' (stored ''uploads/notes.docx'' ''text'')))
     (parse_path ''outputs/a1_notes.pdf'') = Some ''notes as pdf'' \<and>
   files (snd (convert_office office_env (parse_path ''uploads/notes.docx'')
          (parse_path ''outputs/a1_notes.pdf'') ''pdf'' (stored ''uploads/notes.docx'' ''text'')))
     (parse_path ''outputs/notes.pdf'') = None"
proof -
  have r: "subprocess_run office_env
     (office_argv (parse_path ''uploads/notes.docx'') (parse_path ''outputs/a1_notes.pdf'') ''pdf'')
     120 (files (stored ''uploads/notes.docx'' ''text'')) =
     Completed 0 [] ((files (stored ''uploads/notes.docx'' ''text''))
                       (parse_path ''outputs/notes.pdf'' \<mapsto> ''notes as pdf''))"
    by (simp add: office_env_def bare_env_def)
  have n: "name (parse_path ''uploads/notes.docx'') = ''notes.docx''"
    and d: "name (parse_path ''outputs/a1_notes.pdf'') = ''a1'' @ ''_notes.pdf''"
    and p: "joinpath (parent (parse_path ''outputs/a1_notes.pdf'')) ''notes.pdf'' =
            parse_path ''outputs/notes.pdf''"
    by (simp_all add: path_eval)
  have f: "((files (stored ''uploads/notes.docx'' ''text''))
             (parse_path ''outputs/notes.pdf'' \<mapsto> ''notes as pdf''))
            (joinpath (parent (parse_path ''outputs/a1_notes.pdf'')) ''notes.pdf'') =
           Some ''notes as pdf''"
    unfolding p by simp
  from office_output_moved_into_place [OF r, THEN conjunct2, rule_format, of "''a1''" "''notes as pdf''"]
    n d f
  have "fst (convert_office office_env (parse_path ''uploads/notes.docx'')
          (parse_path ''outputs/a1_notes.pdf'') ''pdf'' (stored ''uploads/notes.docx'' ''text'')) =
     Inr () \<and>
   files (snd (convert_office office_env (parse_path ''uploads/notes.docx'')
          (parse_path ''outputs/a1_notes.pdf'') ''pdf'' (stored ''uploads/notes.docx'' ''text'')))
     (parse_path ''outputs/a1_notes.pdf'') = Some ''notes as pdf'' \<and>
   files (snd (convert_office office_env (parse_path ''uploads/notes.docx'')
          (parse_path ''outputs/a1_notes.pdf'') ''pdf'' (stored ''uploads/notes.docx'' ''text'')))
     (joinpath (parent (parse_path ''outputs/a1_notes.pdf'')) ''notes.pdf'') = None"
    by blast
  then show ?thesis
    using r n d unfolding p by simp
qed

text \<open>
  C8. The conversion endpoint classifies from the file name alone. For an upload whose
  file name has no extension of the extension table, every conversion request for the
  uploaded file is answered 400 (target not supported for \<open>unknown\<close>), whatever the
  target, also one of the suggestions of the upload response.
\<close>

theorem mime_classified_upload_cannot_convert:
  assumes "\<not> dict_contains EXT_TO_CATEGORY
              (str_lower E (lstrip_dot (suffix (parse_path (upload_filename file)))))"
    and "upload_file E fid file w = (Inr resp, w1)"
  shows "detect_category E (resp_filename resp) None = Inr ''unknown'' \<and>
         convert_file E \<lparr>file_id = resp_file_id resp, filename = resp_filename resp,
                          target_format = t\<rparr> w1 =
           (Inl (HTTPException 400
                   (''Target .'' @ lstrip_dot (str_lower E t) @ '' is not supported for unknown'')),
            w1)"
proof -
  define save_path where
    "save_path = joinpath UPLOAD_DIR (fid @ suffix (parse_path (upload_filename file)))"
  from assms(2) have ids: "resp_file_id resp = fid" "resp_filename resp = upload_filename file"
    and w1: "w1 = write_file save_path (file_data file) w"
    unfolding upload_file_def Let_def save_path_def
    by (auto split: sum.splits)
  have ex: "exists w1 (joinpath UPLOAD_DIR (fid @ suffix (parse_path (upload_filename file))))"
    unfolding w1 save_path_def by (simp add: exists_def write_file_def)
  have cat: "detect_category E (upload_filename file) None = Inr ''unknown''"
    using assms(1) by (simp add: detect_category_def Let_def)
  have row: "normalize_ext E (lstrip_dot (str_lower E t)) \<notin> allowed_targets E ''unknown''"
    by (simp add: allowed_targets_def row_cases)
  have "convert_file E \<lparr>file_id = fid, filename = upload_filename file, target_format = t\<rparr> w1 =
           (Inl (HTTPException 400
                   (''Target .'' @ lstrip_dot (str_lower E t) @ '' is not supported for unknown'')),
            w1)"
    using convert_file_rejects [where req = "\<lparr>file_id = fid, filename = upload_filename file, target_format = t\<rparr>"
        and w = w1 and category = "''unknown''" and E = E] ex cat row
    by simp
  then show ?thesis
    using cat by (simp add: ids)
qed

text \<open>C8, at the upload \<open>data\<close> declared as \<open>text/csv\<close> and the suggested target csv.\<close>

theorem mime_classified_upload_cannot_convert_witness:
  "\<not> dict_contains EXT_TO_CATEGORY
        (str_lower bare_env (lstrip_dot (suffix (parse_path (upload_filename csv_upload))))) \<and>
   upload_file bare_env ''d1'' csv_upload \<lparr>files = Map.empty, trace = []\<rparr> =
     (Inr (UploadResponse ''d1'' ''data'' ''spreadsheet'' ''text/csv''
             [''csv'', ''xlsx'', ''xls'', ''pdf'']),
      stored ''uploads/d1'' ''a,b'') \<and>
   convert_file bare_env \<lparr>file_id = ''d1'', filename = ''data'', target_format = ''csv''\<rparr>
       (stored ''uploads/d1'' ''a,b'') =
     (Inl (HTTPException 400 ''Target .csv is not supported for unknown''),
      stored ''uploads/d1'' ''a,b'')"
proof -
  have a: "\<not> dict_contains EXT_TO_CATEGORY
        (str_lower bare_env (lstrip_dot (suffix (parse_path (upload_filename csv_upload)))))"
    by (simp add: csv_upload_def data_has_no_suffix lstrip_dot_def bare_env_lower ascii_lower_def dict_contains_def
        EXT_TO_CATEGORY_def)
  have m: "\<And>p v. detect_mime bare_env csv_upload p v = ''text/csv''"
    by (simp add: detect_mime_def csv_upload_def bare_env_def)
  have b: "upload_file bare_env ''d1'' csv_upload \<lparr>files = Map.empty, trace = []\<rparr> =
     (Inr (UploadResponse ''d1'' ''data'' ''spreadsheet'' ''text/csv''
             [''csv'', ''xlsx'', ''xls'', ''pdf'']),
      stored ''uploads/d1'' ''a,b'')"
    unfolding upload_file_def Let_def m
    by (simp add: csv_upload_def data_has_no_suffix data_save_path data_with_csv_hint
        lstrip_dot_def spreadsheet_suggestions stored_def write_file_def)
  from mime_classified_upload_cannot_convert [OF a b, of "''csv''"]
  have "convert_file bare_env \<lparr>file_id = ''d1'', filename = ''data'', target_format = ''csv''\<rparr>
       (stored ''uploads/d1'' ''a,b'') =
     (Inl (HTTPException 400
         (''Target .'' @ lstrip_dot (str_lower bare_env ''csv'') @ '' is not supported for unknown'')),
      stored ''uploads/d1'' ''a,b'')"
    by simp
  then show ?thesis
    using a b by (simp add: string_eval bare_env_lower)
qed

text \<open>
  C9. A detected category outside the seven catalog categories is \<open>unknown\<close> and has no
  allowed target, so a request that reaches the validation is rejected there with the
  world unchanged; and no request is ever answered with the \<open>Unsupported category\<close>
  error of the last dispatch branch.
\<close>

theorem unknown_category_never_dispatched:
  "(detect_category E (filename req) None = Inr c \<and> c \<notin> set (map fst FORMAT_MAP) \<longrightarrow>
      c = ''unknown'' \<and> allowed_targets E c = {} \<and>
      (exists w (joinpath UPLOAD_DIR (file_id req @ suffix (parse_path (filename req)))) \<longrightarrow>
         convert_file E req w =
           (Inl (HTTPException 400
                   (''Target .'' @ lstrip_dot (str_lower E (target_format req)) @
                    '' is not supported for unknown'')), w))) \<and>
   fst (convert_file E req w) \<noteq> Inl (HTTPException 400 (''Unsupported category: '' @ k))"
proof -
  have "c = ''unknown'' \<and> allowed_targets E c = {} \<and>
      (exists w (joinpath UPLOAD_DIR (file_id req @ suffix (parse_path (filename req)))) \<longrightarrow>
         convert_file E req w =
           (Inl (HTTPException 400
                   (''Target .'' @ lstrip_dot (str_lower E (target_format req)) @
                    '' is not supported for unknown'')), w))"
    if d: "detect_category E (filename req) None = Inr c" and n: "c \<notin> set (map fst FORMAT_MAP)"
  proof -
    from d n have u: "c = ''unknown''"
      using detect_None_cases by blast
    have e: "allowed_targets E c = {}"
      using n by (rule unknown_allowed_empty)
    have r: "normalize_ext E (lstrip_dot (str_lower E (target_format req))) \<notin>
             allowed_targets E c"
      by (simp add: e)
    show ?thesis
      using u e convert_file_rejects [OF _ d r] by auto
  qed
  then show ?thesis
    using convert_file_never_unsupported_category by blast
qed

text \<open>C9, at the file name \<open>data\<close>.\<close>

theorem unknown_category_never_dispatched_witness:
  "detect_category bare_env ''data'' None = Inr ''unknown'' \<and>
   ''unknown'' \<notin> set (map fst FORMAT_MAP) \<and>
   exists (stored ''uploads/d1'' ''a,b'') (joinpath UPLOAD_DIR (''d1'' @ suffix (parse_path ''data''))) \<and>
   allowed_targets bare_env ''unknown'' = {} \<and>
   convert_file bare_env \<lparr>file_id = ''d1'', filename = ''data'', target_format = ''pdf''\<rparr>
       (stored ''uploads/d1'' ''a,b'') =
     (Inl (HTTPException 400 ''Target .pdf is not supported for unknown''),
      stored ''uploads/d1'' ''a,b'')"
proof -
  have a: "detect_category bare_env ''data'' None = Inr ''unknown''"
    by (simp add: router_eval path_eval string_eval bare_env_lower)
  have b: "''unknown'' \<notin> set (map fst FORMAT_MAP)"
    by (simp add: FORMAT_MAP_def)
  have c: "exists (stored ''uploads/d1'' ''a,b'')
             (joinpath UPLOAD_DIR (''d1'' @ suffix (parse_path ''data'')))"
    by (simp add: world_eval path_eval)
  note t = unknown_category_never_dispatched
     [where req = "\<lparr>file_id = ''d1'', filename = ''data'', target_format = ''pdf''\<rparr>"
        and w = "stored ''uploads/d1'' ''a,b''" and c = "''unknown''" and E = bare_env]
  have "allowed_targets bare_env ''unknown'' = {} \<and>
     convert_file bare_env \<lparr>file_id = ''d1'', filename = ''data'', target_format = ''pdf''\<rparr>
       (stored ''uploads/d1'' ''a,b'') =
     (Inl (HTTPException 400
        (''Target .'' @ lstrip_dot (str_lower bare_env ''pdf'') @ '' is not supported for unknown'')),
      stored ''uploads/d1'' ''a,b'')"
    using t a b c by simp
  then show ?thesis
    using a b c by (simp add: string_eval bare_env_lower)
qed

text \<open>
  C10. Where \<open>str.lower\<close> is idempotent, commutes with the stripping of leading dots and
  is the ASCII table on ASCII strings, as Python's is: extension normalisation
  (lower-case, strip the leading dots, apply the alias table jpeg to jpg and tif to tiff)
  is idempotent: normalising a normalised extension gives it back, for every extension
  string.
\<close>

theorem normalize_ext_idempotent:
  assumes idem: "\<And>s. str_lower E (str_lower E s) = str_lower E s"
    and comm: "\<And>s. lstrip_dot (str_lower E s) = str_lower E (lstrip_dot s)"
    and ascii: "\<And>s. is_ascii s \<Longrightarrow> str_lower E s = ascii_lower s"
  shows "normalize_ext E (normalize_ext E x) = normalize_ext E x"
  using idem comm ascii by (rule normalize_ext_fixed)

text \<open>C10, at \<open>..JPEG\<close>, which normalises to jpg, and at \<open>.Tar.GZ\<close>.\<close>

theorem normalize_ext_idempotent_witness:
  "normalize_ext bare_env (normalize_ext bare_env ''..JPEG'') =
     normalize_ext bare_env ''..JPEG'' \<and>
   normalize_ext bare_env ''..JPEG'' = ''jpg'' \<and>
   normalize_ext bare_env (normalize_ext bare_env ''.Tar.GZ'') =
     normalize_ext bare_env ''.Tar.GZ'' \<and>
   normalize_ext bare_env ''.Tar.GZ'' = ''tar.gz''"
proof -
  have a: "normalize_ext bare_env ''..JPEG'' = ''jpg''"
    and b: "normalize_ext bare_env ''.Tar.GZ'' = ''tar.gz''"
    by (simp_all add: normalize_ext_def Let_def bare_env_lower string_eval alias_cases)
  from normalize_ext_idempotent [where E = bare_env, OF bare_env_laws, of "''..JPEG''"]
    normalize_ext_idempotent [where E = bare_env, OF bare_env_laws, of "''.Tar.GZ''"] a b
  show ?thesis
    by blast
qed

end
